theory Spec2Isabelle
  imports Main "HOL-Library.Word"
begin

unbundle bit_operations_syntax

section \<open>ELF structures\<close>

text \<open>
  The embedding follows \<^verbatim>\<open>elf_reader.cpp\<close>. The reader is instantiated for the two ELF
  classes; the fields of the 32-bit layout are kept zero-extended in 64-bit words, which
  is what the integer conversions of the source do wherever a 32-bit field meets a
  64-bit operand.
\<close>

type_synonym byte = "8 word"
type_synonym u16 = "16 word"
type_synonym u32 = "32 word"
type_synonym u64 = "64 word"

datatype ElfStruct = Elf32Struct | Elf64Struct

record Elf_Phdr =
  p_type :: u32
  p_flags :: u32
  p_offset :: u64
  p_vaddr :: u64
  p_paddr :: u64
  p_filesz :: u64

definition PT_LOAD :: u32 where
  "PT_LOAD = 1"

definition PF_X :: u32 where
  "PF_X = 1"

definition ULLONG_MAX :: u64 where
  "ULLONG_MAX = - 1"

section \<open>Minimum virtual address of the executable segments\<close>

text \<open>
  \<^verbatim>\<open>ReadMinVirtualAddress\<close>: the range-for loop over \<^verbatim>\<open>program_headers_\<close>, with the running
  minimum as accumulator.
\<close>

fun min_vaddr_loop :: "Elf_Phdr list \<Rightarrow> u64 \<Rightarrow> u64" where
  "min_vaddr_loop [] min_vaddr = min_vaddr"
| "min_vaddr_loop (ph # phs) min_vaddr =
     min_vaddr_loop phs
       (if p_type ph = PT_LOAD \<and> p_flags ph AND PF_X \<noteq> 0
        then (if min_vaddr > p_vaddr ph then p_vaddr ph else min_vaddr)
        else min_vaddr)"

definition ReadMinVirtualAddress :: "Elf_Phdr list \<Rightarrow> u64" where
  "ReadMinVirtualAddress program_headers = min_vaddr_loop program_headers ULLONG_MAX"

text \<open>The segments the scan looks at: type LOAD with the executable flag.\<close>

definition exec_load :: "Elf_Phdr \<Rightarrow> bool" where
  "exec_load ph \<longleftrightarrow> p_type ph = PT_LOAD \<and> p_flags ph AND PF_X \<noteq> 0"

section \<open>Outcomes of a call\<close>

text \<open>
  A call of the source either returns, or ends the process through \<^verbatim>\<open>abort()\<close> (the
  \<^verbatim>\<open>CHECK\<close> macro, the explicit calls, and \<^verbatim>\<open>std::terminate\<close> for an exception that
  nothing catches), or leaves what the source and the spec determine: the parsing code reads its buffers through bare pointers with no bounds
  check, so a read or a pointer beyond the end of a buffer is undefined behaviour of the
  C++ program. Neither of the last two leaves a state behind. Output to \<^verbatim>\<open>stdout\<close> and
  \<^verbatim>\<open>stderr\<close> is not part of the embedding.
\<close>

datatype 'a exec = Return 'a | Aborted | Undefined

fun exec_bind :: "'a exec \<Rightarrow> ('a \<Rightarrow> 'b exec) \<Rightarrow> 'b exec" where
  "exec_bind (Return x) f = f x"
| "exec_bind Aborted f = Aborted"
| "exec_bind Undefined f = Undefined"

section \<open>Reading from a buffer in memory\<close>

text \<open>
  A buffer is the list of its bytes and a cursor (\<^verbatim>\<open>const char*& p\<close> in the source) is an
  offset into it; every reading function returns the value with the advanced cursor.
  C strings are lists of bytes without the terminating zero.
\<close>

definition cstring :: "string \<Rightarrow> byte list" where
  "cstring s = map of_char s"

fun le_value :: "byte list \<Rightarrow> u64" where
  "le_value [] = 0"
| "le_value (b # bs) = ucast b OR push_bit 8 (le_value bs)"

definition field :: "byte list \<Rightarrow> nat \<Rightarrow> nat \<Rightarrow> u64" where
  "field b off n = le_value (take n (drop off b))"

definition Read :: "byte list \<Rightarrow> nat \<Rightarrow> nat \<Rightarrow> (u64 \<times> nat) exec" where
  \<comment> \<open>Modelled from the spec: \<^verbatim>\<open>Read(p, size)\<close> of \<^verbatim>\<open>read_utils.h\<close>, which is not among the
      sources: the value of the next \<^verbatim>\<open>size\<close> bytes, least significant byte first, with
      the cursor moved behind them.\<close>
  "Read d p sz = (if p + sz \<le> length d then Return (field d p sz, p + sz) else Undefined)"

definition ReadStr :: "byte list \<Rightarrow> nat \<Rightarrow> (byte list \<times> nat) exec" where
  \<comment> \<open>Modelled from the spec: \<^verbatim>\<open>ReadStr(p)\<close> of \<^verbatim>\<open>read_utils.h\<close>: the null-terminated
      string at the cursor, with the cursor moved behind its terminator.\<close>
  "ReadStr d p =
     (let s = takeWhile (\<lambda>b. b \<noteq> 0) (drop p d)
      in if p + length s < length d then Return (s, p + length s + 1) else Undefined)"

fun uleb128 :: "byte list \<Rightarrow> nat \<Rightarrow> u64 \<Rightarrow> (u64 \<times> nat) exec" where
  "uleb128 [] shift result = Undefined"
| "uleb128 (b # bs) shift result =
     (let result = result OR push_bit shift (ucast (b AND 0x7f))
      in if b AND 0x80 \<noteq> 0
         then exec_bind (uleb128 bs (shift + 7) result) (\<lambda>(v, n). Return (v, Suc n))
         else Return (result, 1))"

definition ReadULEB128 :: "byte list \<Rightarrow> nat \<Rightarrow> (u64 \<times> nat) exec" where
  \<comment> \<open>Modelled from the spec: \<^verbatim>\<open>ReadULEB128(p)\<close> of \<^verbatim>\<open>read_utils.h\<close>: seven low bits per
      byte, continuation in the high bit, the shift growing by seven with each byte, any
      number of bytes; \<^const>\<open>uleb128\<close> returns the value and the number of bytes consumed.
      The value is accumulated in 64 bits.\<close>
  "ReadULEB128 d p = exec_bind (uleb128 (drop p d) 0 0) (\<lambda>(v, n). Return (v, p + n))"

fun sleb128 :: "byte list \<Rightarrow> nat \<Rightarrow> u64 \<Rightarrow> (u64 \<times> nat) exec" where
  "sleb128 [] shift result = Undefined"
| "sleb128 (b # bs) shift result =
     (let result = result OR push_bit shift (ucast (b AND 0x7f))
      in if b AND 0x80 \<noteq> 0
         then exec_bind (sleb128 bs (shift + 7) result) (\<lambda>(v, n). Return (v, Suc n))
         else Return (if b AND 0x40 \<noteq> 0 then result OR push_bit (shift + 7) (- 1) else result, 1))"

definition ReadLEB128 :: "byte list \<Rightarrow> nat \<Rightarrow> (u64 \<times> nat) exec" where
  \<comment> \<open>Modelled from the spec: \<^verbatim>\<open>ReadLEB128(p)\<close> of \<^verbatim>\<open>read_utils.h\<close>: the accumulation of
      ULEB128, and bit 6 of the final byte sign-extends the result. The \<^verbatim>\<open>int64_t\<close> is
      kept as its 64-bit pattern.\<close>
  "ReadLEB128 d p = exec_bind (sleb128 (drop p d) 0 0) (\<lambda>(v, n). Return (v, p + n))"

subsection \<open>Pointer encodings of the exception header\<close>

definition DW_EH_PE_absptr :: byte where "DW_EH_PE_absptr = 0x00"
definition DW_EH_PE_uleb128 :: byte where "DW_EH_PE_uleb128 = 0x01"
definition DW_EH_PE_udata2 :: byte where "DW_EH_PE_udata2 = 0x02"
definition DW_EH_PE_udata4 :: byte where "DW_EH_PE_udata4 = 0x03"
definition DW_EH_PE_udata8 :: byte where "DW_EH_PE_udata8 = 0x04"
definition DW_EH_PE_sleb128 :: byte where "DW_EH_PE_sleb128 = 0x09"
definition DW_EH_PE_sdata2 :: byte where "DW_EH_PE_sdata2 = 0x0a"
definition DW_EH_PE_sdata4 :: byte where "DW_EH_PE_sdata4 = 0x0b"
definition DW_EH_PE_sdata8 :: byte where "DW_EH_PE_sdata8 = 0x0c"
definition DW_EH_PE_pcrel :: byte where "DW_EH_PE_pcrel = 0x10"

definition DW_CIE_ID_32 :: u64 where "DW_CIE_ID_32 = 0xffffffff"
definition DW_CIE_ID_64 :: u64 where "DW_CIE_ID_64 = 0xffffffffffffffff"

definition ReadEhEncoding :: "byte list \<Rightarrow> nat \<Rightarrow> byte \<Rightarrow> (u64 \<times> nat) exec" where
  \<comment> \<open>Modelled from the spec: \<^verbatim>\<open>ReadEhEncoding(p, encoding)\<close> of \<^verbatim>\<open>read_utils.h\<close>: the low
      nibble of the tag selects the representation on disk, an absolute pointer (eight
      bytes, the width of a pointer of the reading process), a 2-, 4- or 8-byte value
      (the signed tags of DWARF sign-extended to 64 bits), ULEB128 or SLEB128; the high
      nibble is left to the caller. The spec describes no other tag: the outcome for
      them is left open.\<close>
  "ReadEhEncoding d p encoding =
     (let fmt = encoding AND 0x0f
      in if fmt = DW_EH_PE_absptr then Read d p 8
         else if fmt = DW_EH_PE_uleb128 then ReadULEB128 d p
         else if fmt = DW_EH_PE_udata2 then Read d p 2
         else if fmt = DW_EH_PE_udata4 then Read d p 4
         else if fmt = DW_EH_PE_udata8 then Read d p 8
         else if fmt = DW_EH_PE_sleb128 then ReadLEB128 d p
         else if fmt = DW_EH_PE_sdata2
           then exec_bind (Read d p 2) (\<lambda>(v, p). Return (scast (ucast v :: 16 word), p))
         else if fmt = DW_EH_PE_sdata4
           then exec_bind (Read d p 4) (\<lambda>(v, p). Return (scast (ucast v :: 32 word), p))
         else if fmt = DW_EH_PE_sdata8 then Read d p 8
         else Undefined)"

section \<open>The tables of the call-frame information\<close>

text \<open>
  \<^verbatim>\<open>Cie\<close>, \<^verbatim>\<open>Fde\<close>, \<^verbatim>\<open>CieTable\<close> and \<^verbatim>\<open>FdeTable\<close> are declared in \<^verbatim>\<open>elf_reader.h\<close>, which is
  not among the sources; their fields are the ones \<^verbatim>\<open>ReadEhFrame\<close> writes. The two fields
  that both structures have are declared once. The \<^verbatim>\<open>Cie*\<close> of an \<^verbatim>\<open>Fde\<close> is kept as the
  offset under which that \<^verbatim>\<open>Cie\<close> sits in the \<^verbatim>\<open>CieTable\<close>.
\<close>

record Entry =
  section64 :: bool
  insts :: "byte list"

record Cie = Entry +
  address_size :: byte
  augmentation :: "byte list"
  data_alignment_factor :: u64
  fde_pointer_encoding :: byte
  lsda_encoding :: byte

record Fde = Entry +
  cie :: u64
  func_start :: u64
  func_end :: u64

type_synonym CieTable = "u64 \<rightharpoonup> Cie"
type_synonym FdeTable = "u64 \<rightharpoonup> Fde"

definition new_Cie :: Cie where
  \<comment> \<open>Modelled from the spec: the \<^verbatim>\<open>Cie\<close> a table entry starts as. The pointer encoding of
      the FDEs is the absolute pointer unless augmentation \<^verbatim>\<open>R\<close> overrides it, the LSDA
      encoding is 0 (none) unless augmentation \<^verbatim>\<open>L\<close> sets it.\<close>
  "new_Cie = \<lparr>section64 = False, insts = [], address_size = 0, augmentation = [],
     data_alignment_factor = 0, fde_pointer_encoding = DW_EH_PE_absptr, lsda_encoding = 0\<rparr>"

definition new_Fde :: Fde where
  "new_Fde = \<lparr>section64 = False, insts = [], cie = 0, func_start = 0, func_end = 0\<rparr>"

definition CreateCie :: "CieTable \<Rightarrow> u64 \<Rightarrow> CieTable" where
  \<comment> \<open>Modelled from the spec: \<^verbatim>\<open>CieTable::CreateCie(offset)\<close>, a new \<^verbatim>\<open>Cie\<close> keyed by its byte
      offset within the section. The pointer it returns designates the entry: the
      writes through it are writes to the entry.\<close>
  "CreateCie table offset = table(offset \<mapsto> new_Cie)"

definition FindCie :: "CieTable \<Rightarrow> u64 \<Rightarrow> Cie option" where
  \<comment> \<open>Modelled from the spec: \<^verbatim>\<open>CieTable::FindCie(offset)\<close>, the entry at the offset, or
      \<^verbatim>\<open>nullptr\<close>.\<close>
  "FindCie table offset = table offset"

definition CreateFde :: "FdeTable \<Rightarrow> u64 \<Rightarrow> FdeTable" where
  \<comment> \<open>Modelled from the spec: \<^verbatim>\<open>FdeTable::CreateFde(start)\<close>, a new \<^verbatim>\<open>Fde\<close> keyed by the start
      address of its function.\<close>
  "CreateFde table start = table(start \<mapsto> new_Fde)"

section \<open>The reader\<close>

text \<open>
  The structures of \<^verbatim>\<open><elf.h>\<close>, with the fields the reader uses. \<^verbatim>\<open>Elf_Phdr\<close> is declared
  above.
\<close>

record Elf_Ehdr =
  e_ident :: "byte list"
  e_phoff :: u64
  e_shoff :: u64
  e_phentsize :: u16
  e_phnum :: u16
  e_shentsize :: u16
  e_shnum :: u16
  e_shstrndx :: u16

record Elf_Shdr =
  sh_name :: u32
  sh_addr :: u64
  sh_offset :: u64
  sh_size :: u64

text \<open>
  \<^verbatim>\<open>ElfReaderImpl<ElfStruct>\<close> with the members of its base class \<^verbatim>\<open>ElfReader\<close> that the
  source uses. \<^verbatim>\<open>fp\<close> is the content of the file behind \<^verbatim>\<open>fp_\<close> and \<^verbatim>\<open>fd_\<close>.
\<close>

record reader =
  filename :: string
  fp :: "byte list"
  elf_struct :: ElfStruct
  log_flag :: u32
  read_section_flag :: u32
  header :: Elf_Ehdr
  sec_headers :: "byte list \<rightharpoonup> Elf_Shdr"
  string_section :: "byte list"
  program_headers :: "Elf_Phdr list"
  min_vaddr :: u64
  cie_table :: CieTable
  fde_table :: FdeTable

definition LOG_EH_FRAME_SECTION :: u32 where
  \<comment> \<open>Modelled from the spec: a flag of \<^verbatim>\<open>elf_reader.h\<close>, which is not among the sources.
      The diagnostic mode is one bit of \<^verbatim>\<open>log_flag_\<close>; which bit is an assumption that no
      proof below depends on, beyond its being one of the bits of \<^verbatim>\<open>-1\<close>.\<close>
  "LOG_EH_FRAME_SECTION = 8"

definition READ_EH_FRAME_SECTION :: u32 where
  \<comment> \<open>Modelled from the spec: a flag of \<^verbatim>\<open>elf_reader.h\<close>: the bit of \<^verbatim>\<open>read_section_flag_\<close>
      that records a successful decode.\<close>
  "READ_EH_FRAME_SECTION = 1"

definition ReadFully :: "byte list \<Rightarrow> nat \<Rightarrow> u64 \<Rightarrow> byte list option" where
  \<comment> \<open>\<^verbatim>\<open>pread64\<close> on a regular file: an offset that is negative as \<^verbatim>\<open>off64_t\<close> is an
      error, and fewer bytes than asked for come back only at the end of the file.\<close>
  "ReadFully f sz offset =
     (if 2 ^ 63 \<le> unat offset then None
      else if sz = 0 \<or> unat offset + sz \<le> length f then Some (take sz (drop (unat offset) f))
      else None)"

definition GetSection :: "reader \<Rightarrow> byte list \<Rightarrow> Elf_Shdr option" where
  "GetSection r name = sec_headers r name"

definition vector_max_size :: nat where
  \<comment> \<open>\<^verbatim>\<open>std::vector<char>::max_size()\<close>, the largest \<^verbatim>\<open>ptrdiff_t\<close>. A vector that is asked
      for more elements throws \<^verbatim>\<open>std::length_error\<close>; the program catches no exception,
      so that the process ends through \<^verbatim>\<open>std::terminate\<close>. Up to this size the memory is
      taken to be available.\<close>
  "vector_max_size = 2 ^ 63 - 1"

definition ReadSection :: "reader \<Rightarrow> Elf_Shdr \<Rightarrow> byte list exec" where
  \<comment> \<open>Lines 222 to 228. The vector is built with \<^verbatim>\<open>sh_size\<close> elements before the read; a
      read that fails gives the empty vector.\<close>
  "ReadSection r section =
     (if vector_max_size < unat (sh_size section) then Aborted
      else
        case ReadFully (fp r) (unat (sh_size section)) (sh_offset section) of
          None \<Rightarrow> Return []
        | Some data \<Rightarrow> Return data)"

section \<open>Decoding the call-frame information\<close>

text \<open>
  \<^verbatim>\<open>ReadEhFrame\<close> walks the section twice: when the log flag is set, a first loop narrates
  the records and keeps the CIEs in a table of its own (lines 254 to 366); the second
  loop fills the tables of the reader (lines 368 to 461). The statements that the two
  loops have in common, \<^verbatim>\<open>printf\<close> apart, are written once.
\<close>

definition is_eh_frame :: bool where
  "is_eh_frame = True"

definition char_byte :: "char \<Rightarrow> byte" where
  "char_byte c = of_char c"

definition first_char :: "byte list \<Rightarrow> byte" where
  \<comment> \<open>\<^verbatim>\<open>s[0]\<close> of a C string: the terminator when the string is empty.\<close>
  "first_char s = (case s of [] \<Rightarrow> 0 | c # cs \<Rightarrow> c)"

datatype unit_header =
  ZeroTerminator (after_length: nat)
| Unit (unit_section64: bool) (unit_secbytes: nat) (unit_end: nat) (unit_id: u64) (after_id: nat)

definition read_unit :: "byte list \<Rightarrow> nat \<Rightarrow> unit_header exec" where
  \<comment> \<open>Lines 258 to 278 and 369 to 388: the length of the record, in its 32-bit or its
      64-bit form, and its ID. \<^verbatim>\<open>cie_end\<close> is a pointer into the buffer.\<close>
  "read_unit d p =
     exec_bind (Read d p 4) (\<lambda>(len, p).
     exec_bind
       (if (ucast len :: u32) = 0xffffffff
        then exec_bind (Read d p 8) (\<lambda>(unit_len, p). Return (True, 8, unit_len, p))
        else Return (False, 4, ucast (ucast len :: u32), p))
       (\<lambda>(sec64, secbytes, unit_len, p).
          if unit_len = 0 then Return (ZeroTerminator p)
          else if length d < p + unat unit_len then Undefined
          else
            let cie_end = p + unat unit_len
            in exec_bind (Read d p secbytes) (\<lambda>(cie_id, p).
                 let cie_id = (if \<not> sec64 \<and> cie_id = DW_CIE_ID_32 then DW_CIE_ID_64
                               else cie_id)
                 in Return (Unit sec64 secbytes cie_end cie_id p))))"

fun aug_loop :: "byte list \<Rightarrow> byte list \<Rightarrow> nat \<Rightarrow> Cie \<Rightarrow> (Cie \<times> nat) exec" where
  "aug_loop d [] p c = Return (c, p)"
| "aug_loop d (ch # rest) p c =
     (if ch = char_byte CHR ''R'' then
        exec_bind (Read d p 1) (\<lambda>(enc, p).
          aug_loop d rest p (c\<lparr>fde_pointer_encoding := ucast enc\<rparr>))
      else if ch = char_byte CHR ''P'' then
        exec_bind (Read d p 1) (\<lambda>(encoding, p).
        exec_bind (ReadEhEncoding d p (ucast encoding)) (\<lambda>(personality_handler, p).
          aug_loop d rest p c))
      else if ch = char_byte CHR ''L'' then
        exec_bind (Read d p 1) (\<lambda>(enc, p).
          aug_loop d rest p (c\<lparr>lsda_encoding := ucast enc\<rparr>))
      else Aborted)"

definition read_cie_fields :: "byte list \<Rightarrow> nat \<Rightarrow> Cie \<Rightarrow> (Cie \<times> nat) exec" where
  \<comment> \<open>Lines 284 to 334 and 394 to 431: the fields of a CIE up to its initial
      instructions. \<^const>\<open>aug_loop\<close> is the loop over \<^verbatim>\<open>augmentation[i]\<close> from \<^verbatim>\<open>i = 1\<close>.\<close>
  "read_cie_fields d p c =
     exec_bind (Read d p 1) (\<lambda>(version, p).
     let version = (ucast version :: byte)
     in exec_bind (ReadStr d p) (\<lambda>(aug, p).
     let c = c\<lparr>augmentation := aug\<rparr>
     in if \<not> (first_char aug = 0 \<or> first_char aug = char_byte CHR ''z'') then Aborted
        else
          exec_bind
            (if version \<ge> 4
             then exec_bind (Read d p 1) (\<lambda>(address_size, p).
                  exec_bind (Read d p 1) (\<lambda>(segment_size, p).
                    Return (ucast address_size :: byte, p)))
             else Return (8, p))
            (\<lambda>(address_size, p).
          let c = c\<lparr>address_size := address_size\<rparr>
          in exec_bind (ReadULEB128 d p) (\<lambda>(code_alignment_factor, p).
             exec_bind (ReadLEB128 d p) (\<lambda>(daf, p).
             let c = c\<lparr>data_alignment_factor := daf\<rparr>
             in exec_bind (if version = 1 then Read d p 1 else ReadULEB128 d p)
                  (\<lambda>(return_address_register, p).
                if first_char aug = char_byte CHR ''z''
                then exec_bind (ReadULEB128 d p) (\<lambda>(augmentation_len, p).
                       aug_loop d (drop 1 aug) p c)
                else Return (c, p)))))))"

definition read_fde_range :: "byte list \<Rightarrow> nat \<Rightarrow> Cie \<Rightarrow> (u64 \<times> u64 \<times> nat) exec" where
  \<comment> \<open>Lines 345 and 346, 441 and 442.\<close>
  "read_fde_range d p c =
     exec_bind (ReadEhEncoding d p (fde_pointer_encoding c)) (\<lambda>(initial_location, p).
     exec_bind (ReadEhEncoding d p (fde_pointer_encoding c)) (\<lambda>(address_range, p).
       Return (initial_location, address_range, p)))"

definition read_fde_augmentation :: "byte list \<Rightarrow> nat \<Rightarrow> Cie \<Rightarrow> nat exec" where
  \<comment> \<open>Lines 354 to 361, 452 to 457.\<close>
  "read_fde_augmentation d p c =
     exec_bind
       (if first_char (augmentation c) = char_byte CHR ''z''
        then exec_bind (ReadULEB128 d p) (\<lambda>(augmentation_len, p). Return p)
        else Return p)
       (\<lambda>p. if lsda_encoding c \<noteq> 0
            then exec_bind (ReadEhEncoding d p (lsda_encoding c)) (\<lambda>(lsda, p). Return p)
            else Return p)"

definition cie_offset_of :: "nat \<Rightarrow> nat \<Rightarrow> u64 \<Rightarrow> u64" where
  \<comment> \<open>Lines 338 and 435, with \<^verbatim>\<open>p\<close> as its offset from \<^verbatim>\<open>begin\<close>.\<close>
  "cie_offset_of p secbytes cie_id =
     (if is_eh_frame then of_nat p - of_nat secbytes - cie_id else cie_id)"

definition is_cie_id :: "u64 \<Rightarrow> bool" where
  \<comment> \<open>Lines 279 and 389.\<close>
  "is_cie_id cie_id = (if is_eh_frame then cie_id = 0 else cie_id = DW_CIE_ID_64)"

text \<open>One turn of a loop either goes on at a new cursor or leaves the function with \<^verbatim>\<open>false\<close>.\<close>

datatype 'a flow = Continue nat 'a | ReturnFalse 'a

definition eh_frame_log_unit :: "byte list \<Rightarrow> nat \<Rightarrow> CieTable \<Rightarrow> CieTable flow exec" where
  \<comment> \<open>The body of the loop of lines 257 to 365.\<close>
  "eh_frame_log_unit d p table =
     (let cie_begin = p
      in exec_bind (read_unit d p) (\<lambda>u.
           case u of
             ZeroTerminator p \<Rightarrow> Return (Continue p table)
           | Unit sec64 secbytes cie_end cie_id p \<Rightarrow>
               if is_cie_id cie_id then
                 let table = CreateCie table (of_nat cie_begin)
                 in exec_bind (read_cie_fields d p new_Cie) (\<lambda>(c, p).
                      Return (Continue cie_end (table(of_nat cie_begin \<mapsto> c))))
               else
                 let cie_offset = cie_offset_of p secbytes cie_id
                 in case FindCie table cie_offset of
                      None \<Rightarrow> Return (ReturnFalse table)
                    | Some c \<Rightarrow>
                        exec_bind (read_fde_range d p c) (\<lambda>(initial_location, address_range, p).
                        exec_bind (read_fde_augmentation d p c) (\<lambda>p.
                          Return (Continue cie_end table)))))"

definition eh_frame_unit :: "u64 \<Rightarrow> byte list \<Rightarrow> nat \<Rightarrow> reader \<Rightarrow> reader flow exec" where
  \<comment> \<open>The body of the loop of lines 368 to 461. \<^verbatim>\<open>insts.insert(insts.begin(), p, cie_end)\<close>
      copies the range from \<^verbatim>\<open>p\<close> to \<^verbatim>\<open>cie_end\<close>, which is a range only when \<^verbatim>\<open>p\<close> is not
      behind \<^verbatim>\<open>cie_end\<close>.\<close>
  "eh_frame_unit eh_frame_addr d p r =
     (let cie_begin = p
      in exec_bind (read_unit d p) (\<lambda>u.
           case u of
             ZeroTerminator p \<Rightarrow> Return (Continue p r)
           | Unit sec64 secbytes cie_end cie_id p \<Rightarrow>
               if is_cie_id cie_id then
                 let r = r\<lparr>cie_table := CreateCie (cie_table r) (of_nat cie_begin)\<rparr>
                 in exec_bind (read_cie_fields d p (new_Cie\<lparr>section64 := sec64\<rparr>)) (\<lambda>(c, p).
                      if cie_end < p then Undefined
                      else
                        let c = c\<lparr>insts := take (cie_end - p) (drop p d) @ insts c\<rparr>
                        in Return (Continue cie_end
                             (r\<lparr>cie_table := (cie_table r)(of_nat cie_begin \<mapsto> c)\<rparr>)))
               else
                 let cie_offset = cie_offset_of p secbytes cie_id
                 in case FindCie (cie_table r) cie_offset of
                      None \<Rightarrow> Return (ReturnFalse r)
                    | Some c \<Rightarrow>
                        let base = p
                        in exec_bind (read_fde_range d p c) (\<lambda>(initial_location, address_range, p).
                           let proc_start =
                                 (if fde_pointer_encoding c AND 0x70 = DW_EH_PE_pcrel
                                  then initial_location + (eh_frame_addr + of_nat base)
                                  else initial_location);
                               r = r\<lparr>fde_table := CreateFde (fde_table r) proc_start\<rparr>;
                               fde = new_Fde\<lparr>cie := cie_offset, section64 := sec64,
                                 func_start := proc_start, func_end := proc_start + address_range\<rparr>
                           in exec_bind (read_fde_augmentation d p c) (\<lambda>p.
                                if cie_end < p then Undefined
                                else
                                  let fde = fde\<lparr>insts := take (cie_end - p) (drop p d) @ insts fde\<rparr>
                                  in Return (Continue cie_end
                                       (r\<lparr>fde_table := (fde_table r)(proc_start \<mapsto> fde)\<rparr>))))))"

subsection \<open>Every turn of the loops moves the cursor forward\<close>

lemma Read_Return: "Read d p n = Return (v, p') \<Longrightarrow> p' = p + n \<and> p + n \<le> length d"
  by (auto simp add: Read_def split: if_splits)

lemma exec_bind_Return:
  "exec_bind m f = Return y \<longleftrightarrow> (\<exists>x. m = Return x \<and> f x = Return y)"
  by (cases m) simp_all

lemma exec_bind_cong:
  "(\<And>x. m = Return x \<Longrightarrow> f x = g x) \<Longrightarrow> exec_bind m f = exec_bind m g"
  by (cases m) simp_all

lemma read_unit_zero: "read_unit d p = Return (ZeroTerminator p') \<Longrightarrow> p < p'"
  by (auto simp add: read_unit_def exec_bind_Return Let_def dest!: Read_Return split: if_splits)

lemma read_unit_advances:
  "read_unit d p = Return (Unit sec64 secbytes cie_end cie_id p') \<Longrightarrow> p < cie_end \<and> cie_end \<le> length d"
  by (auto simp add: read_unit_def exec_bind_Return Let_def unat_gt_0 dest!: Read_Return split: if_splits)

lemma log_unit_zero:
  "read_unit d p = Return (ZeroTerminator q) \<Longrightarrow> eh_frame_log_unit d p t = Return (Continue q t)"
  by (simp add: eh_frame_log_unit_def)

lemma log_unit_cie:
  "read_unit d p = Return (Unit s sb ce i q) \<Longrightarrow> is_cie_id i \<Longrightarrow>
   eh_frame_log_unit d p t =
     exec_bind (read_cie_fields d q new_Cie) (\<lambda>(c, p'). Return (Continue ce (t(of_nat p \<mapsto> c))))"
  by (simp add: eh_frame_log_unit_def CreateCie_def)

lemma log_unit_fde:
  "read_unit d p = Return (Unit s sb ce i q) \<Longrightarrow> \<not> is_cie_id i \<Longrightarrow>
   eh_frame_log_unit d p t =
     (case t (cie_offset_of q sb i) of
        None \<Rightarrow> Return (ReturnFalse t)
      | Some c \<Rightarrow>
          exec_bind (read_fde_range d q c) (\<lambda>(initial_location, address_range, p').
          exec_bind (read_fde_augmentation d p' c) (\<lambda>p'. Return (Continue ce t))))"
  by (simp add: eh_frame_log_unit_def FindCie_def)

lemma unit_zero:
  "read_unit d p = Return (ZeroTerminator q) \<Longrightarrow> eh_frame_unit a d p r = Return (Continue q r)"
  by (simp add: eh_frame_unit_def)

lemma unit_cie:
  "read_unit d p = Return (Unit s sb ce i q) \<Longrightarrow> is_cie_id i \<Longrightarrow>
   eh_frame_unit a d p r =
     exec_bind (read_cie_fields d q (new_Cie\<lparr>section64 := s\<rparr>)) (\<lambda>(c, p').
       if ce < p' then Undefined
       else Return (Continue ce
         (r\<lparr>cie_table := (cie_table r)(of_nat p \<mapsto> c\<lparr>insts := take (ce - p') (drop p' d) @ insts c\<rparr>)\<rparr>)))"
  by (auto simp add: eh_frame_unit_def CreateCie_def Let_def intro!: exec_bind_cong)

lemma unit_fde:
  "read_unit d p = Return (Unit s sb ce i q) \<Longrightarrow> \<not> is_cie_id i \<Longrightarrow>
   eh_frame_unit a d p r =
     (case cie_table r (cie_offset_of q sb i) of
        None \<Rightarrow> Return (ReturnFalse r)
      | Some c \<Rightarrow>
          exec_bind (read_fde_range d q c) (\<lambda>(initial_location, address_range, p').
          exec_bind (read_fde_augmentation d p' c) (\<lambda>p''.
            if ce < p'' then Undefined
            else Return (Continue ce
              (r\<lparr>fde_table := (fde_table r)
                 ((if fde_pointer_encoding c AND 0x70 = DW_EH_PE_pcrel
                   then initial_location + (a + of_nat q) else initial_location) \<mapsto>
                  \<lparr>section64 = s, insts = take (ce - p'') (drop p'' d),
                   cie = cie_offset_of q sb i,
                   func_start = (if fde_pointer_encoding c AND 0x70 = DW_EH_PE_pcrel
                      then initial_location + (a + of_nat q) else initial_location),
                   func_end = (if fde_pointer_encoding c AND 0x70 = DW_EH_PE_pcrel
                      then initial_location + (a + of_nat q) else initial_location) + address_range\<rparr>)\<rparr>)))))"
  by (auto simp add: eh_frame_unit_def FindCie_def CreateFde_def Let_def new_Fde_def
      split: option.splits intro!: exec_bind_cong)

lemma eh_frame_log_unit_advances:
  assumes "eh_frame_log_unit d p table = Return (Continue p' table')"
  shows "p < p'"
proof -
  from assms obtain u where u: "read_unit d p = Return u"
    by (auto simp add: eh_frame_log_unit_def exec_bind_Return)
  show ?thesis
  proof (cases u)
    case (ZeroTerminator q)
    with u assms show ?thesis
      by (auto simp add: log_unit_zero dest: read_unit_zero)
  next
    case (Unit s sb ce i q)
    with u have adv: "p < ce" by (auto dest: read_unit_advances)
    show ?thesis
    proof (cases "is_cie_id i")
      case True
      with u Unit assms adv show ?thesis
        by (auto simp add: log_unit_cie exec_bind_Return)
    next
      case False
      with u Unit assms adv show ?thesis
        by (auto simp add: log_unit_fde exec_bind_Return split: option.splits)
    qed
  qed
qed

lemma eh_frame_unit_advances:
  assumes "eh_frame_unit a d p r = Return (Continue p' r')"
  shows "p < p'"
proof -
  from assms obtain u where u: "read_unit d p = Return u"
    by (auto simp add: eh_frame_unit_def exec_bind_Return)
  show ?thesis
  proof (cases u)
    case (ZeroTerminator q)
    with u assms show ?thesis
      by (auto simp add: unit_zero dest: read_unit_zero)
  next
    case (Unit s sb ce i q)
    with u have adv: "p < ce" by (auto dest: read_unit_advances)
    show ?thesis
    proof (cases "is_cie_id i")
      case True
      with u Unit assms adv show ?thesis
        by (auto simp add: unit_cie exec_bind_Return split: if_splits)
    next
      case False
      with u Unit assms adv show ?thesis
        by (auto simp add: unit_fde exec_bind_Return split: option.splits if_splits)
    qed
  qed
qed

subsection \<open>The two loops and \<^verbatim>\<open>ReadEhFrame\<close>\<close>

function eh_frame_log_loop :: "byte list \<Rightarrow> nat \<Rightarrow> CieTable \<Rightarrow> (bool \<times> CieTable) exec" where
  "eh_frame_log_loop d p table =
     (if p < length d then
        (case eh_frame_log_unit d p table of
           Return (Continue p' table') \<Rightarrow> eh_frame_log_loop d p' table'
         | Return (ReturnFalse table') \<Rightarrow> Return (False, table')
         | Aborted \<Rightarrow> Aborted
         | Undefined \<Rightarrow> Undefined)
      else Return (True, table))"
  by pat_completeness auto
termination
  by (relation "measure (\<lambda>(d, p, table). length d - p)")
     (auto dest: eh_frame_log_unit_advances)

function eh_frame_loop :: "u64 \<Rightarrow> byte list \<Rightarrow> nat \<Rightarrow> reader \<Rightarrow> (bool \<times> reader) exec" where
  "eh_frame_loop a d p r =
     (if p < length d then
        (case eh_frame_unit a d p r of
           Return (Continue p' r') \<Rightarrow> eh_frame_loop a d p' r'
         | Return (ReturnFalse r') \<Rightarrow> Return (False, r')
         | Aborted \<Rightarrow> Aborted
         | Undefined \<Rightarrow> Undefined)
      else Return (True, r))"
  by pat_completeness auto
termination
  by (relation "measure (\<lambda>(a, d, p, r). length d - p)")
     (auto dest: eh_frame_unit_advances)

declare eh_frame_loop.simps [simp del] eh_frame_log_loop.simps [simp del]

text \<open>
  Where a loop stands after a number of turns that all went on: the cursor and the tables
  at that moment, or \<^const>\<open>None\<close> when the loop has left the function before.
\<close>

fun eh_frame_turns :: "nat \<Rightarrow> u64 \<Rightarrow> byte list \<Rightarrow> nat \<Rightarrow> reader \<Rightarrow> (nat \<times> reader) option" where
  "eh_frame_turns 0 a d p r = Some (p, r)"
| "eh_frame_turns (Suc n) a d p r =
     (if p < length d then
        (case eh_frame_unit a d p r of
           Return (Continue p' r') \<Rightarrow> eh_frame_turns n a d p' r'
         | _ \<Rightarrow> None)
      else None)"

fun eh_frame_log_turns :: "nat \<Rightarrow> byte list \<Rightarrow> nat \<Rightarrow> CieTable \<Rightarrow> (nat \<times> CieTable) option" where
  "eh_frame_log_turns 0 d p t = Some (p, t)"
| "eh_frame_log_turns (Suc n) d p t =
     (if p < length d then
        (case eh_frame_log_unit d p t of
           Return (Continue p' t') \<Rightarrow> eh_frame_log_turns n d p' t'
         | _ \<Rightarrow> None)
      else None)"

definition decode_eh_frame :: "reader \<Rightarrow> (bool \<times> reader) exec" where
  \<comment> \<open>Lines 245 to 463: what \<^verbatim>\<open>ReadEhFrame\<close> does when the flag of a successful decode is
      not set.\<close>
  "decode_eh_frame r =
     (case GetSection r (cstring ''.eh_frame'') of
        None \<Rightarrow> Return (False, r)
      | Some eh_frame_sec \<Rightarrow>
          exec_bind (ReadSection r eh_frame_sec) (\<lambda>eh_frame_data.
            exec_bind
              (if log_flag r AND LOG_EH_FRAME_SECTION \<noteq> 0
               then eh_frame_log_loop eh_frame_data 0 Map.empty
               else Return (True, Map.empty))
              (\<lambda>(logged, table).
                 if \<not> logged then Return (False, r)
                 else
                   exec_bind (eh_frame_loop (sh_addr eh_frame_sec) eh_frame_data 0 r)
                     (\<lambda>(decoded, r).
                        if \<not> decoded then Return (False, r)
                        else Return (True,
                          r\<lparr>read_section_flag :=
                              read_section_flag r OR READ_EH_FRAME_SECTION\<rparr>)))))"

definition ReadEhFrame :: "reader \<Rightarrow> (bool \<times> reader) exec" where
  "ReadEhFrame r =
     (if read_section_flag r AND READ_EH_FRAME_SECTION \<noteq> 0 then Return (True, r)
      else decode_eh_frame r)"

section \<open>Opening a file\<close>

text \<open>
  The layouts are those of \<^verbatim>\<open><elf.h>\<close> on a little-endian host: the offsets and widths of
  the fields within \<^verbatim>\<open>Elf64_Ehdr\<close>, \<^verbatim>\<open>Elf64_Shdr\<close>, \<^verbatim>\<open>Elf64_Phdr\<close> and their 32-bit
  counterparts.
\<close>

definition EI_NIDENT :: nat where "EI_NIDENT = 16"
definition SELFMAG :: nat where "SELFMAG = 4"
definition EI_CLASS :: nat where "EI_CLASS = 4"
definition ELFMAG :: "byte list" where "ELFMAG = [0x7f, 0x45, 0x4c, 0x46]"
definition ELFCLASS32 :: byte where "ELFCLASS32 = 1"
definition ELFCLASS64 :: byte where "ELFCLASS64 = 2"

fun ELFCLASS :: "ElfStruct \<Rightarrow> byte" where
  "ELFCLASS Elf64Struct = ELFCLASS64"
| "ELFCLASS Elf32Struct = ELFCLASS32"

fun sizeof_Ehdr :: "ElfStruct \<Rightarrow> nat" where
  "sizeof_Ehdr Elf64Struct = 64"
| "sizeof_Ehdr Elf32Struct = 52"

fun sizeof_Shdr :: "ElfStruct \<Rightarrow> nat" where
  "sizeof_Shdr Elf64Struct = 64"
| "sizeof_Shdr Elf32Struct = 40"

fun sizeof_Phdr :: "ElfStruct \<Rightarrow> nat" where
  "sizeof_Phdr Elf64Struct = 56"
| "sizeof_Phdr Elf32Struct = 32"

fun parse_Ehdr :: "ElfStruct \<Rightarrow> byte list \<Rightarrow> Elf_Ehdr" where
  "parse_Ehdr Elf64Struct b =
     \<lparr>e_ident = take EI_NIDENT b, e_phoff = field b 32 8, e_shoff = field b 40 8,
      e_phentsize = ucast (field b 54 2), e_phnum = ucast (field b 56 2),
      e_shentsize = ucast (field b 58 2), e_shnum = ucast (field b 60 2),
      e_shstrndx = ucast (field b 62 2)\<rparr>"
| "parse_Ehdr Elf32Struct b =
     \<lparr>e_ident = take EI_NIDENT b, e_phoff = field b 28 4, e_shoff = field b 32 4,
      e_phentsize = ucast (field b 42 2), e_phnum = ucast (field b 44 2),
      e_shentsize = ucast (field b 46 2), e_shnum = ucast (field b 48 2),
      e_shstrndx = ucast (field b 50 2)\<rparr>"

fun parse_Shdr :: "ElfStruct \<Rightarrow> byte list \<Rightarrow> Elf_Shdr" where
  "parse_Shdr Elf64Struct b =
     \<lparr>sh_name = ucast (field b 0 4), sh_addr = field b 16 8, sh_offset = field b 24 8,
      sh_size = field b 32 8\<rparr>"
| "parse_Shdr Elf32Struct b =
     \<lparr>sh_name = ucast (field b 0 4), sh_addr = field b 12 4, sh_offset = field b 16 4,
      sh_size = field b 20 4\<rparr>"

fun parse_Phdr :: "ElfStruct \<Rightarrow> byte list \<Rightarrow> Elf_Phdr" where
  "parse_Phdr Elf64Struct b =
     \<lparr>p_type = ucast (field b 0 4), p_flags = ucast (field b 4 4), p_offset = field b 8 8,
      p_vaddr = field b 16 8, p_paddr = field b 24 8, p_filesz = field b 32 8\<rparr>"
| "parse_Phdr Elf32Struct b =
     \<lparr>p_type = ucast (field b 0 4), p_flags = ucast (field b 24 4), p_offset = field b 4 4,
      p_vaddr = field b 8 4, p_paddr = field b 12 4, p_filesz = field b 16 4\<rparr>"

declare parse_Ehdr.simps [simp del] parse_Shdr.simps [simp del] parse_Phdr.simps [simp del]

definition ReadHeader :: "reader \<Rightarrow> bool \<times> reader" where
  "ReadHeader r =
     (case ReadFully (fp r) (sizeof_Ehdr (elf_struct r)) 0 of
        None \<Rightarrow> (False, r)
      | Some b \<Rightarrow>
          let r = r\<lparr>header := parse_Ehdr (elf_struct r) b\<rparr>
          in if take SELFMAG (e_ident (header r)) \<noteq> ELFMAG then (False, r)
             else
               let elf_class = e_ident (header r) ! EI_CLASS
               in if elf_class \<noteq> ELFCLASS (elf_struct r) then (False, r) else (True, r))"

definition str_sec_offset :: "ElfStruct \<Rightarrow> Elf_Ehdr \<Rightarrow> u64 exec" where
  \<comment> \<open>\<^verbatim>\<open>header_.e_shoff + header_.e_shstrndx * header_.e_shentsize\<close>: the two 16-bit
      operands are promoted to \<^verbatim>\<open>int\<close>, whose overflow is undefined, and the sum has the
      type of \<^verbatim>\<open>e_shoff\<close>, 32 or 64 bits unsigned.\<close>
  "str_sec_offset es h =
     (let prod = unat (e_shstrndx h) * unat (e_shentsize h)
      in if 2 ^ 31 \<le> prod then Undefined
         else Return (case es of
                Elf64Struct \<Rightarrow> e_shoff h + of_nat prod
              | Elf32Struct \<Rightarrow> ucast ((ucast (e_shoff h) :: u32) + of_nat prod)))"

definition section_name :: "byte list \<Rightarrow> u32 \<Rightarrow> byte list exec" where
  \<comment> \<open>\<^verbatim>\<open>&string_section_[sec.sh_name]\<close>, read as a C string.\<close>
  "section_name strs idx =
     (let name = takeWhile (\<lambda>b. b \<noteq> 0) (drop (unat idx) strs)
      in if unat idx + length name < length strs then Return name else Undefined)"

fun sec_headers_loop ::
  "ElfStruct \<Rightarrow> byte list \<Rightarrow> byte list \<Rightarrow> u64 \<Rightarrow> nat \<Rightarrow> u64 \<Rightarrow> (byte list \<rightharpoonup> Elf_Shdr) \<Rightarrow>
   (bool \<times> (byte list \<rightharpoonup> Elf_Shdr)) exec" where
  \<comment> \<open>The loop of lines 143 to 153, with the number of turns that are left.\<close>
  "sec_headers_loop es f strs entsize 0 offset secs = Return (True, secs)"
| "sec_headers_loop es f strs entsize (Suc n) offset secs =
     (case ReadFully f (sizeof_Shdr es) offset of
        None \<Rightarrow> Return (False, secs)
      | Some b \<Rightarrow>
          let sec = parse_Shdr es b
          in exec_bind (section_name strs (sh_name sec)) (\<lambda>name.
               sec_headers_loop es f strs entsize n (offset + entsize)
                 (if name = [] then secs else secs(name \<mapsto> sec))))"

definition ReadSecHeaders :: "reader \<Rightarrow> (bool \<times> reader) exec" where
  \<comment> \<open>Lines 128 to 163. \<^verbatim>\<open>string_section_.resize(str_sec.sh_size)\<close> comes before the read
      of the string table.\<close>
  "ReadSecHeaders r =
     (if e_shstrndx (header r) = 0 then Return (False, r)
      else
        exec_bind (str_sec_offset (elf_struct r) (header r)) (\<lambda>offset.
          case ReadFully (fp r) (sizeof_Shdr (elf_struct r)) offset of
            None \<Rightarrow> Return (False, r)
          | Some b \<Rightarrow>
              let str_sec = parse_Shdr (elf_struct r) b
              in if vector_max_size < unat (sh_size str_sec) then Aborted
                 else
                   case ReadFully (fp r) (unat (sh_size str_sec)) (sh_offset str_sec) of
                     None \<Rightarrow> Return (False, r)
                   | Some strs \<Rightarrow>
                       let r = r\<lparr>string_section := strs\<rparr>
                       in exec_bind
                            (sec_headers_loop (elf_struct r) (fp r) (string_section r)
                               (ucast (e_shentsize (header r))) (unat (e_shnum (header r)))
                               (e_shoff (header r)) (sec_headers r))
                            (\<lambda>(ok, secs). Return (ok, r\<lparr>sec_headers := secs\<rparr>))))"

fun program_headers_loop ::
  "ElfStruct \<Rightarrow> byte list \<Rightarrow> u64 \<Rightarrow> nat \<Rightarrow> u64 \<Rightarrow> Elf_Phdr list \<Rightarrow> bool \<times> Elf_Phdr list" where
  \<comment> \<open>The loop of lines 167 to 173, with the number of turns that are left.\<close>
  "program_headers_loop es f entsize 0 offset phs = (True, phs)"
| "program_headers_loop es f entsize (Suc n) offset phs =
     (case ReadFully f (sizeof_Phdr es) offset of
        None \<Rightarrow> (False, phs)
      | Some b \<Rightarrow> program_headers_loop es f entsize n (offset + entsize) (phs @ [parse_Phdr es b]))"

definition ReadProgramHeaders :: "reader \<Rightarrow> bool \<times> reader" where
  "ReadProgramHeaders r =
     (case program_headers_loop (elf_struct r) (fp r) (ucast (e_phentsize (header r)))
             (unat (e_phnum (header r))) (e_phoff (header r)) (program_headers r) of
        (ok, phs) \<Rightarrow> (ok, r\<lparr>program_headers := phs\<rparr>))"

definition ReadMinVaddr :: "reader \<Rightarrow> reader" where
  \<comment> \<open>Modelled from the spec: \<^verbatim>\<open>ElfReader::ReadMinVaddr()\<close> of \<^verbatim>\<open>elf_reader.h\<close>, which keeps
      the result of \<^verbatim>\<open>ReadMinVirtualAddress\<close> in the reader.\<close>
  "ReadMinVaddr r = r\<lparr>min_vaddr := ReadMinVirtualAddress (program_headers r)\<rparr>"

definition ElfReaderImpl :: "ElfStruct \<Rightarrow> byte list \<Rightarrow> string \<Rightarrow> u32 \<Rightarrow> reader" where
  \<comment> \<open>The constructor. It leaves \<^verbatim>\<open>header_\<close> to \<^verbatim>\<open>ReadHeader\<close>, which no function reads
      before; the containers start empty.\<close>
  "ElfReaderImpl es f name lf =
     \<lparr>filename = name, fp = f, elf_struct = es, log_flag = lf, read_section_flag = 0,
      header = \<lparr>e_ident = [], e_phoff = 0, e_shoff = 0, e_phentsize = 0, e_phnum = 0,
        e_shentsize = 0, e_shnum = 0, e_shstrndx = 0\<rparr>,
      sec_headers = Map.empty, string_section = [], program_headers = [], min_vaddr = 0,
      cie_table = Map.empty, fde_table = Map.empty\<rparr>"

text \<open>
  \<^verbatim>\<open>ElfReader::Create\<close>. The file system is the map from the names that \<^verbatim>\<open>fopen\<close> can
  open for reading to the content of the file. \<^verbatim>\<open>nullptr\<close> is \<^const>\<open>None\<close>.
\<close>

definition Create :: "(string \<rightharpoonup> byte list) \<Rightarrow> string \<Rightarrow> u32 \<Rightarrow> reader option exec" where
  "Create fs name lf =
     (case fs name of
        None \<Rightarrow> Return None
      | Some f \<Rightarrow>
          if length f < EI_NIDENT then Return None
          else
            let buf = take EI_NIDENT f
            in if take SELFMAG buf \<noteq> ELFMAG then Return None
               else
                 let elf_class = buf ! EI_CLASS
                 in case (if elf_class = ELFCLASS64 then Some (ElfReaderImpl Elf64Struct f name lf)
                          else if elf_class = ELFCLASS32
                            then Some (ElfReaderImpl Elf32Struct f name lf)
                          else None) of
                      None \<Rightarrow> Return None
                    | Some result \<Rightarrow>
                        (case ReadHeader result of
                           (False, result) \<Rightarrow> Return None
                         | (True, result) \<Rightarrow>
                             exec_bind (ReadSecHeaders result) (\<lambda>(ok, result).
                               if \<not> ok then Return None
                               else
                                 case ReadProgramHeaders result of
                                   (False, result) \<Rightarrow> Return None
                                 | (True, result) \<Rightarrow> Return (Some (ReadMinVaddr result)))))"




section \<open>The table of the readers\<close>

text \<open>
  \<^verbatim>\<open>ElfReaderManager::OpenElf\<close>. \<^verbatim>\<open>reader_table_\<close> owns the readers, and the pointer that
  \<^verbatim>\<open>OpenElf\<close> returns designates the entry of the name: the result is the entry as it is
  at the return, \<^const>\<open>None\<close> for the null pointer of a file that could not be opened.
\<close>

definition OpenElf ::
  "(string \<rightharpoonup> byte list) \<Rightarrow> (string \<rightharpoonup> reader option) \<Rightarrow> string \<Rightarrow>
   (reader option \<times> (string \<rightharpoonup> reader option)) exec" where
  "OpenElf fs reader_table name =
     (case reader_table name of
        Some it \<Rightarrow> Return (it, reader_table)
      | None \<Rightarrow>
          exec_bind (Create fs name (- 1)) (\<lambda>result.
            Return (result, reader_table(name \<mapsto> result))))"

section \<open>Relations between states\<close>

text \<open>
  \<^const>\<open>eh_frame_loop\<close> changes nothing of the reader but its two tables. The two loops
  read a CIE of the table for three of its fields only; tables that agree on them make the
  loops take the same turns.
\<close>

definition tables_only :: "reader \<Rightarrow> reader \<Rightarrow> bool" where
  "tables_only r r' \<longleftrightarrow> r' = r\<lparr>cie_table := cie_table r', fde_table := fde_table r'\<rparr>"

definition ctl_eq :: "Cie \<Rightarrow> Cie \<Rightarrow> bool" where
  "ctl_eq c c' \<longleftrightarrow> augmentation c = augmentation c' \<and>
     fde_pointer_encoding c = fde_pointer_encoding c' \<and> lsda_encoding c = lsda_encoding c'"

definition tables_agree :: "CieTable \<Rightarrow> CieTable \<Rightarrow> bool" where
  "tables_agree t m \<longleftrightarrow> (\<forall>k. rel_option ctl_eq (t k) (m k))"

section \<open>Example inputs\<close>

text \<open>
  A 64-bit file of 376 bytes: the header, one program header (LOAD, readable and
  executable, at \<open>0x1000\<close>), the 40 bytes of \<^verbatim>\<open>.eh_frame\<close> at offset 120, the string table
  of the section names at offset 160 and three section headers at offset 184. The section
  \<^verbatim>\<open>.eh_frame\<close> is mapped at \<open>0x2000\<close>.
\<close>

definition example_Ehdr :: "byte list" where
  "example_Ehdr =
     [0x7f, 0x45, 0x4c, 0x46, 2, 1, 1, 0, 0, 0, 0, 0, 0, 0, 0, 0,
      3, 0, 0x3e, 0, 1, 0, 0, 0,
      0, 0x10, 0, 0, 0, 0, 0, 0,
      0x40, 0, 0, 0, 0, 0, 0, 0,
      0xb8, 0, 0, 0, 0, 0, 0, 0,
      0, 0, 0, 0,
      0x40, 0, 0x38, 0, 1, 0, 0x40, 0, 3, 0, 1, 0]"

definition example_Phdr :: "byte list" where
  "example_Phdr =
     [1, 0, 0, 0, 5, 0, 0, 0,
      0, 0, 0, 0, 0, 0, 0, 0,
      0, 0x10, 0, 0, 0, 0, 0, 0,
      0, 0x10, 0, 0, 0, 0, 0, 0,
      0x78, 1, 0, 0, 0, 0, 0, 0,
      0x78, 1, 0, 0, 0, 0, 0, 0,
      0, 0x10, 0, 0, 0, 0, 0, 0]"

definition example_shstrtab :: "byte list" where
  "example_shstrtab =
     [0,
      0x2e, 0x73, 0x68, 0x73, 0x74, 0x72, 0x74, 0x61, 0x62, 0,
      0x2e, 0x65, 0x68, 0x5f, 0x66, 0x72, 0x61, 0x6d, 0x65, 0]"

definition example_padding :: "byte list" where
  "example_padding = [0, 0, 0]"

definition example_Shdr0 :: "byte list" where
  "example_Shdr0 =
     [0, 0, 0, 0, 0, 0, 0, 0, 0, 0, 0, 0, 0, 0, 0, 0, 0, 0, 0, 0, 0, 0, 0, 0, 0, 0, 0, 0, 0, 0, 0, 0,
      0, 0, 0, 0, 0, 0, 0, 0, 0, 0, 0, 0, 0, 0, 0, 0, 0, 0, 0, 0, 0, 0, 0, 0, 0, 0, 0, 0, 0, 0, 0, 0]"

definition example_Shdr1 :: "byte list" where
  "example_Shdr1 =
     [1, 0, 0, 0, 3, 0, 0, 0,
      0, 0, 0, 0, 0, 0, 0, 0,
      0, 0, 0, 0, 0, 0, 0, 0,
      0xa0, 0, 0, 0, 0, 0, 0, 0,
      0x15, 0, 0, 0, 0, 0, 0, 0,
      0, 0, 0, 0, 0, 0, 0, 0,
      1, 0, 0, 0, 0, 0, 0, 0,
      0, 0, 0, 0, 0, 0, 0, 0]"

definition example_Shdr2 :: "byte list" where
  "example_Shdr2 =
     [0x0b, 0, 0, 0, 1, 0, 0, 0,
      2, 0, 0, 0, 0, 0, 0, 0,
      0, 0x20, 0, 0, 0, 0, 0, 0,
      0x78, 0, 0, 0, 0, 0, 0, 0,
      0x28, 0, 0, 0, 0, 0, 0, 0,
      0, 0, 0, 0, 0, 0, 0, 0,
      8, 0, 0, 0, 0, 0, 0, 0,
      0, 0, 0, 0, 0, 0, 0, 0]"

definition example_elf :: "byte list \<Rightarrow> byte list" where
  "example_elf eh_frame =
     example_Ehdr @ example_Phdr @ eh_frame @ example_shstrtab @ example_padding @
     example_Shdr0 @ example_Shdr1 @ example_Shdr2"

definition example_header :: Elf_Ehdr where
  "example_header = \<lparr>e_ident = [0x7f, 0x45, 0x4c, 0x46, 2, 1, 1, 0, 0, 0, 0, 0, 0, 0, 0, 0],
        e_phoff = 64, e_shoff = 184, e_phentsize = 56, e_phnum = 1,
        e_shentsize = 64, e_shnum = 3, e_shstrndx = 1\<rparr>"

definition example_sec :: Elf_Shdr where
  "example_sec = \<lparr>sh_name = 11, sh_addr = 0x2000, sh_offset = 120, sh_size = 40\<rparr>"

definition example_reader :: "byte list \<Rightarrow> string \<Rightarrow> u32 \<Rightarrow> reader" where
  "example_reader eh_frame name lf =
     \<lparr>filename = name, fp = example_elf eh_frame, elf_struct = Elf64Struct, log_flag = lf,
      read_section_flag = 0,
      header = \<lparr>e_ident = [0x7f, 0x45, 0x4c, 0x46, 2, 1, 1, 0, 0, 0, 0, 0, 0, 0, 0, 0],
        e_phoff = 64, e_shoff = 184, e_phentsize = 56, e_phnum = 1,
        e_shentsize = 64, e_shnum = 3, e_shstrndx = 1\<rparr>,
      sec_headers =
        [cstring ''.shstrtab'' \<mapsto> \<lparr>sh_name = 1, sh_addr = 0, sh_offset = 160, sh_size = 21\<rparr>,
         cstring ''.eh_frame'' \<mapsto> \<lparr>sh_name = 11, sh_addr = 0x2000, sh_offset = 120, sh_size = 40\<rparr>],
      string_section = example_shstrtab,
      program_headers =
        [\<lparr>p_type = 1, p_flags = 5, p_offset = 0, p_vaddr = 0x1000, p_paddr = 0x1000,
          p_filesz = 376\<rparr>],
      min_vaddr = 0x1000, cie_table = Map.empty, fde_table = Map.empty\<rparr>"

text \<open>
  Sections for it. \<^verbatim>\<open>example_eh_frame\<close> holds a CIE (version 1, augmentation \<^verbatim>\<open>zR\<close>, FDE
  pointers relative to their own address in four signed bytes) and an FDE whose ID, 24,
  is the distance from its ID field at offset 24 back to that CIE; it covers \<open>0x1000\<close>
  to \<open>0x1020\<close>. \<^verbatim>\<open>example_cie\<close> and \<^verbatim>\<open>example_fde\<close> are the entries it decodes to.
  In \<^verbatim>\<open>example_unresolved\<close> the ID of the FDE is 16, which leads to offset 8, where no
  CIE is. \<^verbatim>\<open>example_eh\<close> and \<^verbatim>\<open>example_zX\<close> hold one CIE with the augmentation
  \<^verbatim>\<open>eh\<close> and \<^verbatim>\<open>zX\<close>. \<^verbatim>\<open>example_v4\<close> is a CIE of version 4 with the address size 4.
\<close>

definition example_eh_frame :: "byte list" where
  "example_eh_frame = [0x10,0,0,0, 0,0,0,0, 1, 0x7a,0x52,0, 1, 0x78, 0x10, 1, 0x1b, 0x0c,7,8,
           0x10,0,0,0, 0x18,0,0,0, 0xe4,0xef,0xff,0xff, 0x20,0,0,0, 0, 0,0,0]"

definition example_cie :: Cie where
  "example_cie = \<lparr>section64 = False, insts = [0x0c, 7, 8], address_size = 8, augmentation = [0x7a, 0x52],
     data_alignment_factor = - 8, fde_pointer_encoding = 0x1b, lsda_encoding = 0\<rparr>"

definition example_fde :: Fde where
  "example_fde = \<lparr>section64 = False, insts = [0, 0, 0], cie = 0, func_start = 0x1000, func_end = 0x1020\<rparr>"

definition example_unresolved :: "byte list" where
  "example_unresolved =
     [0x10, 0, 0, 0, 0, 0, 0, 0, 1, 0x7a, 0x52, 0, 1, 0x78, 0x10, 1, 0x1b, 0x0c, 7, 8,
      0x10, 0, 0, 0, 0x10, 0, 0, 0, 0xe4, 0xef, 0xff, 0xff, 0x20, 0, 0, 0, 0, 0, 0, 0]"

definition example_eh :: "byte list" where
  "example_eh =
     [0x24, 0, 0, 0, 0, 0, 0, 0, 1, 0x65, 0x68, 0, 0, 0, 0, 0, 0, 0, 0, 0,
      0, 0, 0, 0, 0, 0, 0, 0, 0, 0, 0, 0, 0, 0, 0, 0, 0, 0, 0, 0]"

definition example_zX :: "byte list" where
  "example_zX =
     [0x24, 0, 0, 0, 0, 0, 0, 0, 1, 0x7a, 0x58, 0, 1, 0x78, 0x10, 1, 0, 0, 0, 0,
      0, 0, 0, 0, 0, 0, 0, 0, 0, 0, 0, 0, 0, 0, 0, 0, 0, 0, 0, 0]"

definition example_v4 :: "byte list" where
  "example_v4 = [0x0c, 0, 0, 0, 0, 0, 0, 0, 4, 0, 4, 0, 1, 0x78, 0x10, 0]"






section \<open>Properties\<close>

subsection \<open>The minimum virtual address\<close>

lemma min_vaddr_loop_none:
  "\<forall>ph \<in> set phs. \<not> exec_load ph \<Longrightarrow> min_vaddr_loop phs m = m"
  by (induction phs arbitrary: m) (auto simp add: exec_load_def)

lemma min_vaddr_loop_fold:
  "min_vaddr_loop phs m = fold min (map p_vaddr (filter exec_load phs)) m"
proof (induction phs arbitrary: m)
  case Nil
  show ?case by simp
next
  case (Cons ph phs)
  have "(if p_vaddr ph < m then p_vaddr ph else m) = min (p_vaddr ph) m"
    by (auto simp add: min_def)
  with Cons show ?case by (simp add: exec_load_def)
qed

lemma fold_min_Min:
  fixes m :: "'a::linorder"
  shows "fold min xs m = Min (insert m (set xs))"
proof (induction xs arbitrary: m)
  case Nil
  show ?case by simp
next
  case (Cons x xs)
  have "Min (insert (min x m) (set xs)) = Min (insert m (insert x (set xs)))"
  proof (cases "set xs = {}")
    case True
    then show ?thesis by (simp add: min.commute)
  next
    case False
    then show ?thesis
      by (simp add: Min_insert min.assoc min.commute min.left_commute)
  qed
  with Cons show ?case by simp
qed

lemma ULLONG_MAX_top: "(w :: u64) \<le> ULLONG_MAX"
  by (simp add: ULLONG_MAX_def)

subsection \<open>One turn of the loops\<close>

lemma eh_frame_unit_Continue_cases:
  assumes "eh_frame_unit a d p r = Return (Continue p' r')"
  obtains (zero) "read_unit d p = Return (ZeroTerminator p')" "r' = r"
  | (cie) s sb i q c q' where
      "read_unit d p = Return (Unit s sb p' i q)" "is_cie_id i"
      "read_cie_fields d q (new_Cie\<lparr>section64 := s\<rparr>) = Return (c, q')" "q' \<le> p'"
      "r' = r\<lparr>cie_table := (cie_table r)(of_nat p \<mapsto>
               c\<lparr>insts := take (p' - q') (drop q' d) @ insts c\<rparr>)\<rparr>"
  | (fde) s sb i q c loc range q' q'' where
      "read_unit d p = Return (Unit s sb p' i q)" "\<not> is_cie_id i"
      "cie_table r (cie_offset_of q sb i) = Some c"
      "read_fde_range d q c = Return (loc, range, q')"
      "read_fde_augmentation d q' c = Return q''" "q'' \<le> p'"
      "r' = r\<lparr>fde_table := (fde_table r)
              ((if fde_pointer_encoding c AND 0x70 = DW_EH_PE_pcrel
                then loc + (a + of_nat q) else loc) \<mapsto>
               \<lparr>section64 = s, insts = take (p' - q'') (drop q'' d),
                cie = cie_offset_of q sb i,
                func_start = (if fde_pointer_encoding c AND 0x70 = DW_EH_PE_pcrel
                   then loc + (a + of_nat q) else loc),
                func_end = (if fde_pointer_encoding c AND 0x70 = DW_EH_PE_pcrel
                   then loc + (a + of_nat q) else loc) + range\<rparr>)\<rparr>"
proof -
  from assms obtain u where u: "read_unit d p = Return u"
    by (auto simp add: eh_frame_unit_def exec_bind_Return)
  show thesis
  proof (cases u)
    case (ZeroTerminator q)
    with u assms zero show thesis
      by (simp add: unit_zero)
  next
    case (Unit s sb ce i q)
    note U = u [unfolded Unit]
    show thesis
    proof (cases "is_cie_id i")
      case True
      from assms obtain c q' where
        "read_cie_fields d q (new_Cie\<lparr>section64 := s\<rparr>) = Return (c, q')"
        "(if ce < q' then Undefined
          else Return (Continue ce (r\<lparr>cie_table := (cie_table r)(of_nat p \<mapsto>
             c\<lparr>insts := take (ce - q') (drop q' d) @ insts c\<rparr>)\<rparr>))) = Return (Continue p' r')"
        unfolding unit_cie [OF U True] by (auto simp add: exec_bind_Return)
      with U True show thesis
        by (intro cie [of s sb i q c q']) (auto split: if_splits)
    next
      case False
      from assms obtain c where c: "cie_table r (cie_offset_of q sb i) = Some c"
        unfolding unit_fde [OF U False] by (auto split: option.splits)
      from assms obtain loc range q' q'' where
        "read_fde_range d q c = Return (loc, range, q')"
        "read_fde_augmentation d q' c = Return q''"
        "(if ce < q'' then Undefined
            else Return (Continue ce
              (r\<lparr>fde_table := (fde_table r)
                 ((if fde_pointer_encoding c AND 0x70 = DW_EH_PE_pcrel
                   then loc + (a + of_nat q) else loc) \<mapsto>
                  \<lparr>section64 = s, insts = take (ce - q'') (drop q'' d),
                   cie = cie_offset_of q sb i,
                   func_start = (if fde_pointer_encoding c AND 0x70 = DW_EH_PE_pcrel
                      then loc + (a + of_nat q) else loc),
                   func_end = (if fde_pointer_encoding c AND 0x70 = DW_EH_PE_pcrel
                      then loc + (a + of_nat q) else loc) + range\<rparr>)\<rparr>))) = Return (Continue p' r')"
        unfolding unit_fde [OF U False] c by (auto simp add: exec_bind_Return)
      with U False c show thesis
        by (intro fde [of s sb i q c loc range q' q'']) (auto split: if_splits)
    qed
  qed
qed

lemma eh_frame_unit_ReturnFalse_cases:
  assumes "eh_frame_unit a d p r = Return (ReturnFalse r')"
  obtains s sb ce i q where
    "read_unit d p = Return (Unit s sb ce i q)" "\<not> is_cie_id i"
    "cie_table r (cie_offset_of q sb i) = None" "r' = r"
proof -
  from assms obtain u where u: "read_unit d p = Return u"
    by (auto simp add: eh_frame_unit_def exec_bind_Return)
  show thesis
  proof (cases u)
    case (ZeroTerminator q)
    with u assms show thesis
      by (simp add: unit_zero)
  next
    case (Unit s sb ce i q)
    note U = u [unfolded Unit]
    show thesis
    proof (cases "is_cie_id i")
      case True
      with assms U show thesis
        by (auto simp add: unit_cie exec_bind_Return split: if_splits)
    next
      case False
      with assms U that [of s sb ce i q] show thesis
        by (auto simp add: unit_fde exec_bind_Return split: option.splits if_splits)
    qed
  qed
qed

lemma read_unit_secbytes:
  "read_unit d p = Return (Unit s sb ce i q) \<Longrightarrow> sb = (if s then 8 else 4) \<and> sb \<le> q"
  by (auto simp add: read_unit_def exec_bind_Return Let_def dest!: Read_Return split: if_splits)

lemma is_cie_id_zero: "is_cie_id i \<longleftrightarrow> i = 0"
  by (simp add: is_cie_id_def is_eh_frame_def)

lemma cie_offset_of_eq: "cie_offset_of q sb i = of_nat q - of_nat sb - i"
  by (simp add: cie_offset_of_def is_eh_frame_def)

lemma aug_loop_address_size:
  "aug_loop d cs p c = Return (c', p') \<Longrightarrow> address_size c' = address_size c"
proof (induction cs arbitrary: p c)
  case Nil
  then show ?case by simp
next
  case (Cons ch cs)
  then show ?case
    by (auto simp add: exec_bind_Return split: if_splits)
qed

lemma read_cie_fields_address_size:
  assumes "read_cie_fields d q example_read_cie_fields = Return (c, q')"
    and "Read d q 1 = Return (version, q1)"
  shows "(ucast version :: byte) < 4 \<longrightarrow> address_size c = 8"
    and "\<And>aug q2 asz q3. 4 \<le> (ucast version :: byte) \<Longrightarrow> ReadStr d q1 = Return (aug, q2) \<Longrightarrow>
           Read d q2 1 = Return (asz, q3) \<Longrightarrow> address_size c = ucast asz"
proof -
  have no: "(4 :: byte) \<le> 1 \<longleftrightarrow> False"
    by (simp add: word_le_nat_alt)
  show "(ucast version :: byte) < 4 \<longrightarrow> address_size c = 8"
    using assms
    by (auto simp add: read_cie_fields_def exec_bind_Return Let_def no
        dest!: aug_loop_address_size split: if_splits)
  show "\<And>aug q2 asz q3. 4 \<le> (ucast version :: byte) \<Longrightarrow> ReadStr d q1 = Return (aug, q2) \<Longrightarrow>
           Read d q2 1 = Return (asz, q3) \<Longrightarrow> address_size c = ucast asz"
    using assms
    by (auto simp add: read_cie_fields_def exec_bind_Return Let_def no
        dest!: aug_loop_address_size split: if_splits)
qed

lemmas eval_simps = Read_def field_def ReadStr_def ReadULEB128_def ReadLEB128_def ReadEhEncoding_def
  first_char_def char_byte_def read_fde_range_def read_fde_augmentation_def
  DW_EH_PE_absptr_def DW_EH_PE_uleb128_def DW_EH_PE_udata2_def DW_EH_PE_udata4_def
  DW_EH_PE_udata8_def DW_EH_PE_sleb128_def DW_EH_PE_sdata2_def DW_EH_PE_sdata4_def
  DW_EH_PE_sdata8_def DW_EH_PE_pcrel_def DW_CIE_ID_32_def DW_CIE_ID_64_def
  word_le_nat_alt word_less_nat_alt mask_eq_exp_minus_1 push_bit_eq_mult
  is_cie_id_def is_eh_frame_def cie_offset_of_def new_Cie_def

lemma example_read_unit_cie: "read_unit example_eh_frame 0 = Return (Unit False 4 20 0 8)"
  by (simp add: read_unit_def example_eh_frame_def eval_simps)

lemma example_read_cie_fields: "read_cie_fields example_eh_frame 8 (new_Cie\<lparr>section64 := False\<rparr>) =
    Return (example_cie\<lparr>insts := []\<rparr>, 17)"
  by (simp add: read_cie_fields_def example_eh_frame_def example_cie_def eval_simps)

lemma example_read_unit_fde: "read_unit example_eh_frame 20 = Return (Unit False 4 40 0x18 28)"
  by (simp add: read_unit_def example_eh_frame_def eval_simps)

lemma example_unit_cie: "eh_frame_unit a example_eh_frame 0 r = Return (Continue 20 (r\<lparr>cie_table := (cie_table r)(0 \<mapsto> example_cie)\<rparr>))"
  by (simp add: unit_cie [OF example_read_unit_cie] example_read_cie_fields is_cie_id_zero) (simp add: example_eh_frame_def example_cie_def)

lemma example_unit_fde: "cie_table r 0 = Some example_cie \<Longrightarrow>
  eh_frame_unit 0x2000 example_eh_frame 20 r = Return (Continue 40 (r\<lparr>fde_table := (fde_table r)(0x1000 \<mapsto> example_fde)\<rparr>))"
  by (simp add: unit_fde [OF example_read_unit_fde] is_cie_id_zero cie_offset_of_eq)
     (simp add: example_eh_frame_def example_cie_def example_fde_def eval_simps)

lemma ReadFully_piece:
  assumes "unat off = length a" and "length a < 2 ^ 63" and "n = length b"
  shows "ReadFully (a @ b @ c) n off = Some b"
  using assms by (simp add: ReadFully_def)

lemma len_pieces:
  "length example_Ehdr = 64" "length example_Phdr = 56" "length example_shstrtab = 21"
  "length example_Shdr0 = 64" "length example_Shdr1 = 64" "length example_Shdr2 = 64"
  "length example_padding = 3"
  by (simp_all add: example_Ehdr_def example_Phdr_def example_shstrtab_def example_padding_def
      example_Shdr0_def example_Shdr1_def example_Shdr2_def)

lemma ReadFully_skip:
  assumes "length a \<le> unat off" and "unat off < 2 ^ 63"
  shows "ReadFully (a @ rest) n off = ReadFully rest n (off - of_nat (length a))"
proof -
  have u: "unat (of_nat (length a) :: u64) = length a"
    using assms(1) by (rule le_unat_uoi)
  with assms have le: "(of_nat (length a) :: u64) \<le> off"
    by (simp add: word_le_nat_alt)
  with u have "unat (off - of_nat (length a)) = unat off - length a"
    by (simp add: unat_sub)
  with assms show ?thesis
    by (auto simp add: ReadFully_def)
qed

lemma ReadFully_here: "n = length b \<Longrightarrow> ReadFully (b @ c) n 0 = Some b"
  by (simp add: ReadFully_def)

lemma ReadFully_whole: "n = length b \<Longrightarrow> ReadFully b n 0 = Some b"
  by (simp add: ReadFully_def)

lemma read_Ehdr: "ReadFully (example_elf s) 64 0 = Some example_Ehdr"
  unfolding example_elf_def by (simp add: ReadFully_here len_pieces)

lemma read_Phdr: "ReadFully (example_elf s) 56 64 = Some example_Phdr"
  unfolding example_elf_def by (simp add: ReadFully_skip ReadFully_here len_pieces)

lemma read_eh_frame: "length s = 40 \<Longrightarrow> ReadFully (example_elf s) 40 120 = Some s"
  unfolding example_elf_def by (simp add: ReadFully_skip ReadFully_here len_pieces)

lemma read_shstrtab: "length s = 40 \<Longrightarrow> ReadFully (example_elf s) 21 160 = Some example_shstrtab"
  unfolding example_elf_def by (simp add: ReadFully_skip ReadFully_here len_pieces)

lemma read_Shdr0: "length s = 40 \<Longrightarrow> ReadFully (example_elf s) 64 184 = Some example_Shdr0"
  unfolding example_elf_def by (simp add: ReadFully_skip ReadFully_here len_pieces)

lemma read_Shdr1: "length s = 40 \<Longrightarrow> ReadFully (example_elf s) 64 248 = Some example_Shdr1"
  unfolding example_elf_def by (simp add: ReadFully_skip ReadFully_here len_pieces)

lemma read_Shdr2: "length s = 40 \<Longrightarrow> ReadFully (example_elf s) 64 312 = Some example_Shdr2"
  unfolding example_elf_def by (simp add: ReadFully_skip ReadFully_here ReadFully_whole len_pieces)

lemma parse_example_Ehdr: "parse_Ehdr Elf64Struct example_Ehdr = example_header"
  by (simp add: parse_Ehdr.simps example_Ehdr_def example_header_def field_def EI_NIDENT_def)

lemma parse_example_Phdr:
  "parse_Phdr Elf64Struct example_Phdr =
     \<lparr>p_type = 1, p_flags = 5, p_offset = 0, p_vaddr = 0x1000, p_paddr = 0x1000, p_filesz = 376\<rparr>"
  by (simp add: parse_Phdr.simps example_Phdr_def field_def)

lemma parse_example_Shdr0:
  "parse_Shdr Elf64Struct example_Shdr0 = \<lparr>sh_name = 0, sh_addr = 0, sh_offset = 0, sh_size = 0\<rparr>"
  by (simp add: parse_Shdr.simps example_Shdr0_def field_def)

lemma parse_example_Shdr1:
  "parse_Shdr Elf64Struct example_Shdr1 = \<lparr>sh_name = 1, sh_addr = 0, sh_offset = 160, sh_size = 21\<rparr>"
  by (simp add: parse_Shdr.simps example_Shdr1_def field_def)

lemma parse_example_Shdr2:
  "parse_Shdr Elf64Struct example_Shdr2 = \<lparr>sh_name = 11, sh_addr = 0x2000, sh_offset = 120, sh_size = 40\<rparr>"
  by (simp add: parse_Shdr.simps example_Shdr2_def field_def)

lemma example_names:
  "section_name example_shstrtab 0 = Return []"
  "section_name example_shstrtab 1 = Return (cstring ''.shstrtab'')"
  "section_name example_shstrtab 11 = Return (cstring ''.eh_frame'')"
  by (simp_all add: section_name_def example_shstrtab_def cstring_def)

lemma example_ReadHeader:
  "ReadHeader (ElfReaderImpl Elf64Struct (example_elf s) name lf) =
     (True, (ElfReaderImpl Elf64Struct (example_elf s) name lf)\<lparr>header := example_header\<rparr>)"
  by (simp add: ReadHeader_def ElfReaderImpl_def read_Ehdr parse_example_Ehdr)
     (simp add: example_header_def SELFMAG_def ELFMAG_def EI_CLASS_def ELFCLASS64_def)

lemma example_ReadSecHeaders:
  assumes "length s = 40"
  shows "ReadSecHeaders ((ElfReaderImpl Elf64Struct (example_elf s) name lf)\<lparr>header := example_header\<rparr>) =
     Return (True, (ElfReaderImpl Elf64Struct (example_elf s) name lf)
       \<lparr>header := example_header, string_section := example_shstrtab,
        sec_headers := [cstring ''.shstrtab'' \<mapsto> \<lparr>sh_name = 1, sh_addr = 0, sh_offset = 160, sh_size = 21\<rparr>,
         cstring ''.eh_frame'' \<mapsto> \<lparr>sh_name = 11, sh_addr = 0x2000, sh_offset = 120, sh_size = 40\<rparr>]\<rparr>)"
proof -
  have off: "str_sec_offset Elf64Struct example_header = Return 248"
    by (simp add: str_sec_offset_def example_header_def)
  have three: "(3::nat) = Suc (Suc (Suc 0))" by simp
  have ne: "cstring ''.shstrtab'' \<noteq> []" "cstring ''.eh_frame'' \<noteq> []"
    by (simp_all add: cstring_def)
  have loop: "sec_headers_loop Elf64Struct (example_elf s) example_shstrtab 64 3 184 Map.empty =
     Return (True, [cstring ''.shstrtab'' \<mapsto> \<lparr>sh_name = 1, sh_addr = 0, sh_offset = 160, sh_size = 21\<rparr>,
         cstring ''.eh_frame'' \<mapsto> \<lparr>sh_name = 11, sh_addr = 0x2000, sh_offset = 120, sh_size = 40\<rparr>])"
    unfolding three using assms
    by (simp add: read_Shdr0 read_Shdr1 read_Shdr2 parse_example_Shdr0 parse_example_Shdr1
        parse_example_Shdr2 example_names ne)
  show ?thesis
    using assms
    by (simp add: ReadSecHeaders_def ElfReaderImpl_def off read_Shdr1 parse_example_Shdr1
        read_shstrtab vector_max_size_def)
       (simp add: example_header_def loop)
qed

lemma example_ReadProgramHeaders:
  "ReadProgramHeaders ((ElfReaderImpl Elf64Struct (example_elf s) name lf)
       \<lparr>header := example_header, string_section := strs, sec_headers := secs\<rparr>) =
     (True, (ElfReaderImpl Elf64Struct (example_elf s) name lf)
       \<lparr>header := example_header, string_section := strs, sec_headers := secs,
        program_headers := [\<lparr>p_type = 1, p_flags = 5, p_offset = 0, p_vaddr = 0x1000,
           p_paddr = 0x1000, p_filesz = 376\<rparr>]\<rparr>)"
  by (simp add: ReadProgramHeaders_def ElfReaderImpl_def example_header_def read_Phdr
      parse_example_Phdr)

lemma example_Create:
  assumes "length s = 40"
  shows "Create [name \<mapsto> example_elf s] name lf = Return (Some (example_reader s name lf))"
proof -
  have len: "\<not> length (example_elf s) < EI_NIDENT"
    by (simp add: example_elf_def EI_NIDENT_def len_pieces)
  have ident: "take EI_NIDENT (example_elf s) = [0x7f, 0x45, 0x4c, 0x46, 2, 1, 1, 0, 0, 0, 0, 0, 0, 0, 0, 0]"
    by (simp add: example_elf_def EI_NIDENT_def len_pieces) (simp add: example_Ehdr_def)
  have minv: "ReadMinVirtualAddress [\<lparr>p_type = 1, p_flags = 5, p_offset = 0, p_vaddr = 0x1000,
           p_paddr = 0x1000, p_filesz = 376\<rparr>] = 0x1000"
  proof -
    have m: "ULLONG_MAX = 0xffffffffffffffff"
      by (simp add: ULLONG_MAX_def)
    show ?thesis
      by (simp add: ReadMinVirtualAddress_def m PT_LOAD_def PF_X_def word_less_nat_alt)
  qed
  show ?thesis
    using assms
    by (simp add: Create_def len ident SELFMAG_def ELFMAG_def EI_CLASS_def ELFCLASS64_def
        example_ReadHeader example_ReadSecHeaders example_ReadProgramHeaders ReadMinVaddr_def minv)
       (simp add: ElfReaderImpl_def example_reader_def example_header_def)
qed

lemma eh_frame_turns_loop:
  "eh_frame_turns n a d p r = Some (p', r') \<Longrightarrow> eh_frame_loop a d p r = eh_frame_loop a d p' r'"
proof (induction n arbitrary: p r)
  case 0
  then show ?case by simp
next
  case (Suc n)
  from Suc.prems obtain p1 r1 where
    "p < length d" "eh_frame_unit a d p r = Return (Continue p1 r1)"
    "eh_frame_turns n a d p1 r1 = Some (p', r')"
    by (auto split: if_splits exec.splits flow.splits)
  with Suc.IH [of p1 r1] show ?case
    by (simp add: eh_frame_loop.simps [of a d p r])
qed

lemma eh_frame_log_turns_loop:
  "eh_frame_log_turns n d p t = Some (p', t') \<Longrightarrow> eh_frame_log_loop d p t = eh_frame_log_loop d p' t'"
proof (induction n arbitrary: p t)
  case 0
  then show ?case by simp
next
  case (Suc n)
  from Suc.prems obtain p1 t1 where
    "p < length d" "eh_frame_log_unit d p t = Return (Continue p1 t1)"
    "eh_frame_log_turns n d p1 t1 = Some (p', t')"
    by (auto split: if_splits exec.splits flow.splits)
  with Suc.IH [of p1 t1] show ?case
    by (simp add: eh_frame_log_loop.simps [of d p t])
qed

lemma tables_only_refl: "tables_only r r"
  by (simp add: tables_only_def)

lemma tables_only_trans: "tables_only r r' \<Longrightarrow> tables_only r' r'' \<Longrightarrow> tables_only r r''"
  unfolding tables_only_def
  by (metis (no_types, lifting) reader.surjective reader.update_convs(11) reader.update_convs(12))

lemma eh_frame_unit_tables_only:
  assumes "eh_frame_unit a d p r = Return (Continue p' r')"
  shows "tables_only r r'"
  using assms
  by (cases rule: eh_frame_unit_Continue_cases) (simp_all add: tables_only_def)

lemma eh_frame_loop_tables_only:
  "eh_frame_loop a d p r = Return (b, r') \<Longrightarrow> tables_only r r'"
proof (induction a d p r rule: eh_frame_loop.induct)
  case (1 a d p r)
  show ?case
  proof (cases "p < length d")
    case False
    with "1.prems" show ?thesis
      by (simp add: eh_frame_loop.simps [of a d p r] tables_only_refl)
  next
    case True
    show ?thesis
    proof (cases "eh_frame_unit a d p r")
      case (Return fl)
      show ?thesis
      proof (cases fl)
        case (Continue p1 r1)
        with True Return "1.prems" have "eh_frame_loop a d p1 r1 = Return (b, r')"
          by (simp add: eh_frame_loop.simps [of a d p r])
        with "1.IH" [OF True Return Continue] have "tables_only r1 r'" .
        moreover from Return Continue have "tables_only r r1"
          by (simp add: eh_frame_unit_tables_only)
        ultimately show ?thesis by (rule tables_only_trans [rotated])
      next
        case (ReturnFalse r1)
        with Return have "r1 = r"
          by (auto elim: eh_frame_unit_ReturnFalse_cases)
        with True Return ReturnFalse "1.prems" show ?thesis
          by (simp add: eh_frame_loop.simps [of a d p r] tables_only_refl)
      qed
    next
      case Aborted
      with True "1.prems" show ?thesis
        by (simp add: eh_frame_loop.simps [of a d p r])
    next
      case Undefined
      with True "1.prems" show ?thesis
        by (simp add: eh_frame_loop.simps [of a d p r])
    qed
  qed
qed

lemma map_exec_bind:
  "map_exec f (exec_bind m g) = exec_bind m (\<lambda>x. map_exec f (g x))"
  by (cases m) simp_all

lemma Cie_section64_commute:
  fixes c :: Cie
  shows "c\<lparr>fde_pointer_encoding := e, section64 := s\<rparr> = c\<lparr>section64 := s, fde_pointer_encoding := e\<rparr>"
    and "c\<lparr>lsda_encoding := e, section64 := s\<rparr> = c\<lparr>section64 := s, lsda_encoding := e\<rparr>"
    and "c\<lparr>augmentation := g, section64 := s\<rparr> = c\<lparr>section64 := s, augmentation := g\<rparr>"
    and "c\<lparr>address_size := z, section64 := s\<rparr> = c\<lparr>section64 := s, address_size := z\<rparr>"
    and "c\<lparr>data_alignment_factor := f, section64 := s\<rparr> = c\<lparr>section64 := s, data_alignment_factor := f\<rparr>"
  by (cases c; simp)+

lemma aug_loop_section64:
  "aug_loop d cs p (c\<lparr>section64 := s\<rparr>) =
     map_exec (\<lambda>(c', p'). (c'\<lparr>section64 := s\<rparr>, p')) (aug_loop d cs p c)"
proof (induction cs arbitrary: p c)
  case Nil
  show ?case by simp
next
  case (Cons ch cs)
  show ?case
  proof (cases "Read d p 1")
    case (Return x)
    obtain enc p1 where x: "x = (enc, p1)" by (cases x)
    show ?thesis
    proof (cases "ReadEhEncoding d p1 (ucast enc)")
      case inner: (Return y)
      obtain h p2 where y: "y = (h, p2)" by (cases y)
      show ?thesis
        using Return inner
        by (simp add: x y Cons.IH [symmetric] Cie_section64_commute del: One_nat_def)
    next
      case Aborted
      with Return show ?thesis
        by (simp add: x Cons.IH [symmetric] Cie_section64_commute del: One_nat_def)
    next
      case Undefined
      with Return show ?thesis
        by (simp add: x Cons.IH [symmetric] Cie_section64_commute del: One_nat_def)
    qed
  next
    case Aborted
    then show ?thesis by (simp del: One_nat_def)
  next
    case Undefined
    then show ?thesis by (simp del: One_nat_def)
  qed
qed

lemma read_cie_fields_section64:
  "read_cie_fields d p (c\<lparr>section64 := s\<rparr>) =
     map_exec (\<lambda>(c', p'). (c'\<lparr>section64 := s\<rparr>, p')) (read_cie_fields d p c)"
  unfolding read_cie_fields_def
  by (auto simp add: map_exec_bind Let_def aug_loop_section64 [symmetric] Cie_section64_commute
      split: prod.splits intro!: exec_bind_cong)

lemma READ_EH_FRAME_SECTION_set: "(x OR READ_EH_FRAME_SECTION) AND READ_EH_FRAME_SECTION \<noteq> 0"
proof -
  have "(x OR READ_EH_FRAME_SECTION) AND READ_EH_FRAME_SECTION = READ_EH_FRAME_SECTION"
    by (simp add: bit_eq_iff bit_simps)
  then show ?thesis by (simp add: READ_EH_FRAME_SECTION_def)
qed

lemma READ_EH_FRAME_SECTION_nonzero: "READ_EH_FRAME_SECTION \<noteq> 0"
  by (simp add: READ_EH_FRAME_SECTION_def)

lemma tables_only_fields:
  assumes "tables_only r r'"
  shows "read_section_flag r' = read_section_flag r" "log_flag r' = log_flag r"
    "sec_headers r' = sec_headers r" "fp r' = fp r"
  using assms unfolding tables_only_def
  by (metis reader.select_convs reader.surjective reader.update_convs(11) reader.update_convs(12))+

lemma decode_eh_frame_True:
  assumes "decode_eh_frame r = Return (True, r')"
  shows "read_section_flag r' AND READ_EH_FRAME_SECTION \<noteq> 0"
  using assms
  by (auto simp add: decode_eh_frame_def exec_bind_Return Let_def READ_EH_FRAME_SECTION_set
      READ_EH_FRAME_SECTION_nonzero split: option.splits if_splits)

lemma decode_eh_frame_False:
  assumes "decode_eh_frame r = Return (False, r')"
  shows "tables_only r r'"
  using assms
  by (auto simp add: decode_eh_frame_def exec_bind_Return Let_def tables_only_refl
      split: option.splits if_splits dest: eh_frame_loop_tables_only)

lemma eh_frame_loop_unresolved:
  assumes "p < length d" and "read_unit d p = Return (Unit s sb ce i q)"
    and "\<not> is_cie_id i" and "cie_table r (cie_offset_of q sb i) = None"
  shows "eh_frame_loop a d p r = Return (False, r)"
  using assms by (simp add: eh_frame_loop.simps [of a d p r] unit_fde)

lemma eh_frame_log_loop_unresolved:
  assumes "p < length d" and "read_unit d p = Return (Unit s sb ce i q)"
    and "\<not> is_cie_id i" and "t (cie_offset_of q sb i) = None"
  shows "eh_frame_log_loop d p t = Return (False, t)"
  using assms by (simp add: eh_frame_log_loop.simps [of d p t] log_unit_fde)

lemma exec_bind_Aborted:
  "exec_bind m f = Aborted \<longleftrightarrow> m = Aborted \<or> (\<exists>x. m = Return x \<and> f x = Aborted)"
  by (cases m) simp_all

lemma ReadStr_Read_before:
  "ReadStr d (q + 1) = Return (aug, q') \<Longrightarrow> Read d q 1 = Return (field d q 1, q + 1)"
  by (auto simp add: ReadStr_def Read_def Let_def split: if_splits)

lemma read_cie_fields_first_char:
  assumes "ReadStr d (q + 1) = Return (aug, q')"
    and "first_char aug \<noteq> 0" and "first_char aug \<noteq> char_byte CHR ''z''"
  shows "read_cie_fields d q c = Aborted"
  using assms ReadStr_Read_before [OF assms(1)]
  by (simp add: read_cie_fields_def Let_def del: One_nat_def)

lemma aug_loop_unexpected:
  assumes "\<exists>ch \<in> set cs. ch \<notin> {char_byte CHR ''R'', char_byte CHR ''P'', char_byte CHR ''L''}"
  shows "aug_loop d cs p c \<noteq> Return x"
  using assms
proof (induction cs arbitrary: p c)
  case Nil
  then show ?case by simp
next
  case (Cons ch cs)
  show ?case
  proof (cases "ch \<in> {char_byte CHR ''R'', char_byte CHR ''P'', char_byte CHR ''L''}")
    case False
    then show ?thesis by simp
  next
    case True
    with Cons.prems
    have "\<exists>ch \<in> set cs. ch \<notin> {char_byte CHR ''R'', char_byte CHR ''P'', char_byte CHR ''L''}"
      by auto
    then have "\<And>p c. aug_loop d cs p c \<noteq> Return x"
      by (rule Cons.IH)
    then show ?thesis
      by (auto simp add: exec_bind_Return)
  qed
qed

lemma read_cie_fields_unexpected:
  assumes "ReadStr d (q + 1) = Return (aug, q')"
    and "first_char aug = char_byte CHR ''z''"
    and "\<exists>ch \<in> set (drop 1 aug). ch \<notin> {char_byte CHR ''R'', char_byte CHR ''P'', char_byte CHR ''L''}"
  shows "read_cie_fields d q c \<noteq> Return x"
  using assms(1,2) ReadStr_Read_before [OF assms(1)] aug_loop_unexpected [OF assms(3)]
  by (auto simp add: read_cie_fields_def Let_def exec_bind_Return simp del: One_nat_def
      split: if_splits)

lemma eh_frame_loop_abort:
  assumes "p < length d" and "eh_frame_unit a d p r = Aborted"
  shows "eh_frame_loop a d p r = Aborted"
  using assms by (simp add: eh_frame_loop.simps [of a d p r])

lemma eh_frame_log_loop_abort:
  assumes "p < length d" and "eh_frame_log_unit d p t = Aborted"
  shows "eh_frame_log_loop d p t = Aborted"
  using assms by (simp add: eh_frame_log_loop.simps [of d p t])

lemma tables_agree_None:
  assumes "tables_agree t m" and "m k = None"
  shows "t k = None"
proof -
  from assms have "rel_option ctl_eq (t k) None"
    unfolding tables_agree_def by metis
  then show ?thesis by (cases "t k") simp_all
qed

lemma tables_agree_Some:
  assumes "tables_agree t m" and "m k = Some c"
  shows "\<exists>example_read_cie_fields. t k = Some example_read_cie_fields \<and> ctl_eq example_read_cie_fields c"
proof -
  from assms have "rel_option ctl_eq (t k) (Some c)"
    unfolding tables_agree_def by metis
  then show ?thesis by (cases "t k") simp_all
qed

lemma tables_agree_update:
  "tables_agree t m \<Longrightarrow> ctl_eq example_read_cie_fields c \<Longrightarrow> tables_agree (t(k \<mapsto> example_read_cie_fields)) (m(k \<mapsto> c))"
  by (simp add: tables_agree_def)

lemma ctl_eq_reads:
  assumes "ctl_eq example_read_cie_fields c"
  shows "read_fde_range d q example_read_cie_fields = read_fde_range d q c"
    and "read_fde_augmentation d q example_read_cie_fields = read_fde_augmentation d q c"
  using assms by (simp_all add: ctl_eq_def read_fde_range_def read_fde_augmentation_def)

lemma map_exec_Return:
  "map_exec f m = Return y \<longleftrightarrow> (\<exists>x. m = Return x \<and> y = f x)"
  by (cases m) auto

lemma map_exec_Aborted: "map_exec f m = Aborted \<longleftrightarrow> m = Aborted"
  by (cases m) auto

lemma sim_unit_Continue:
  assumes "tables_agree t (cie_table r)"
    and "eh_frame_unit a d p r = Return (Continue p' r')"
  shows "\<exists>t'. eh_frame_log_unit d p t = Return (Continue p' t') \<and> tables_agree t' (cie_table r')"
  using assms(2)
proof (cases rule: eh_frame_unit_Continue_cases)
  case zero
  with assms(1) show ?thesis by (simp add: log_unit_zero)
next
  case (cie s sb i q c q')
  from cie(3) obtain example_read_cie_fields where example_read_cie_fields: "read_cie_fields d q new_Cie = Return (example_read_cie_fields, q')"
    and c: "c = example_read_cie_fields\<lparr>section64 := s\<rparr>"
    by (auto simp add: read_cie_fields_section64 map_exec_Return)
  have "ctl_eq example_read_cie_fields (c\<lparr>insts := take (p' - q') (drop q' d) @ insts c\<rparr>)"
    by (simp add: ctl_eq_def c)
  with assms(1) have "tables_agree (t(of_nat p \<mapsto> example_read_cie_fields)) (cie_table r')"
    unfolding cie(5) by (simp add: tables_agree_update)
  with cie(1,2) example_read_cie_fields show ?thesis
    by (simp add: log_unit_cie)
next
  case (fde s sb i q c loc range q' q'')
  from assms(1) fde(3) obtain example_read_cie_fields where "t (cie_offset_of q sb i) = Some example_read_cie_fields" "ctl_eq example_read_cie_fields c"
    by (auto dest: tables_agree_Some)
  with fde(1,2,4,5) have "eh_frame_log_unit d p t = Return (Continue p' t)"
    by (simp add: log_unit_fde ctl_eq_reads)
  with assms(1) show ?thesis
    unfolding fde(7) by simp
qed

lemma sim_unit_ReturnFalse:
  assumes "tables_agree t (cie_table r)"
    and "eh_frame_unit a d p r = Return (ReturnFalse r')"
  shows "eh_frame_log_unit d p t = Return (ReturnFalse t)"
  using assms(2)
proof (cases rule: eh_frame_unit_ReturnFalse_cases)
  case (1 s sb ce i q)
  with assms(1) have "t (cie_offset_of q sb i) = None"
    by (auto dest: tables_agree_None)
  with 1 show ?thesis
    by (simp add: log_unit_fde)
qed

lemma read_unit_not_Aborted: "read_unit d p \<noteq> Aborted"
  by (auto simp add: read_unit_def exec_bind_Aborted Read_def Let_def split: if_splits)

lemma sim_unit_Aborted:
  assumes "tables_agree t (cie_table r)"
    and "eh_frame_unit a d p r = Aborted"
  shows "eh_frame_log_unit d p t = Aborted"
proof -
  from assms(2) obtain u where u: "read_unit d p = Return u"
    by (cases "read_unit d p") (auto simp add: eh_frame_unit_def read_unit_not_Aborted)
  show ?thesis
  proof (cases u)
    case (ZeroTerminator q)
    with u assms(2) show ?thesis by (simp add: unit_zero)
  next
    case (Unit s sb ce i q)
    note U = u [unfolded Unit]
    show ?thesis
    proof (cases "is_cie_id i")
      case True
      from assms(2) have "read_cie_fields d q (new_Cie\<lparr>section64 := s\<rparr>) = Aborted"
        unfolding unit_cie [OF U True] by (auto simp add: exec_bind_Aborted split: if_splits)
      then have "read_cie_fields d q new_Cie = Aborted"
        by (simp add: read_cie_fields_section64 map_exec_Aborted)
      then show ?thesis
        by (simp add: log_unit_cie [OF U True])
    next
      case False
      from assms(2) obtain c where c: "cie_table r (cie_offset_of q sb i) = Some c"
        unfolding unit_fde [OF U False] by (auto split: option.splits)
      with assms(1) obtain example_read_cie_fields where example_read_cie_fields: "t (cie_offset_of q sb i) = Some example_read_cie_fields" "ctl_eq example_read_cie_fields c"
        by (auto dest: tables_agree_Some)
      from assms(2) have "read_fde_range d q c = Aborted \<or>
          (\<exists>loc range q'. read_fde_range d q c = Return (loc, range, q') \<and>
             read_fde_augmentation d q' c = Aborted)"
        unfolding unit_fde [OF U False] c
        by (auto simp add: exec_bind_Aborted split: if_splits)
      with example_read_cie_fields show ?thesis
        by (auto simp add: log_unit_fde [OF U False] ctl_eq_reads [OF example_read_cie_fields(2)])
    qed
  qed
qed

lemma sim_loop:
  assumes "tables_agree t (cie_table r)"
  shows "(eh_frame_loop a d p r = Return (b, r') \<longrightarrow> (\<exists>t'. eh_frame_log_loop d p t = Return (b, t'))) \<and>
         (eh_frame_loop a d p r = Aborted \<longrightarrow> eh_frame_log_loop d p t = Aborted)"
  using assms
proof (induction a d p r arbitrary: t rule: eh_frame_loop.induct)
  case (1 a d p r)
  show ?case
  proof (cases "p < length d")
    case False
    then show ?thesis
      by (simp add: eh_frame_loop.simps [of a d p r] eh_frame_log_loop.simps [of d p t])
  next
    case True
    show ?thesis
    proof (cases "eh_frame_unit a d p r")
      case (Return fl)
      show ?thesis
      proof (cases fl)
        case (Continue p1 r1)
        with Return "1.prems" obtain t1 where
          t1: "eh_frame_log_unit d p t = Return (Continue p1 t1)" "tables_agree t1 (cie_table r1)"
          by (auto dest: sim_unit_Continue)
        from "1.IH" [OF True Return Continue t1(2)] True Return Continue t1(1)
        show ?thesis
          by (simp add: eh_frame_loop.simps [of a d p r] eh_frame_log_loop.simps [of d p t])
      next
        case (ReturnFalse r1)
        with Return "1.prems" have "eh_frame_log_unit d p t = Return (ReturnFalse t)"
          by (auto dest: sim_unit_ReturnFalse)
        with True Return ReturnFalse show ?thesis
          by (simp add: eh_frame_loop.simps [of a d p r] eh_frame_log_loop.simps [of d p t])
      qed
    next
      case Aborted
      with "1.prems" have "eh_frame_log_unit d p t = Aborted"
        by (rule sim_unit_Aborted)
      with True Aborted show ?thesis
        by (simp add: eh_frame_loop.simps [of a d p r] eh_frame_log_loop.simps [of d p t])
    next
      case Undefined
      with True show ?thesis
        by (simp add: eh_frame_loop.simps [of a d p r])
    qed
  qed
qed

lemma eh_frame_unit_log_flag:
  "eh_frame_unit a d p (r\<lparr>log_flag := lf\<rparr>) =
     map_exec (map_flow (\<lambda>r. r\<lparr>log_flag := lf\<rparr>)) (eh_frame_unit a d p r)"
proof (cases "read_unit d p")
  case (Return u)
  show ?thesis
  proof (cases u)
    case (ZeroTerminator q)
    with Return show ?thesis by (simp add: unit_zero)
  next
    case (Unit s sb ce i q)
    note U = Return [unfolded Unit]
    show ?thesis
    proof (cases "is_cie_id i")
      case True
      show ?thesis
        unfolding unit_cie [OF U True]
        by (auto simp add: map_exec_bind intro!: exec_bind_cong)
    next
      case False
      show ?thesis
        unfolding unit_fde [OF U False]
        by (auto simp add: map_exec_bind split: option.splits intro!: exec_bind_cong)
    qed
  qed
next
  case Aborted
  then show ?thesis by (simp add: eh_frame_unit_def)
next
  case Undefined
  then show ?thesis by (simp add: eh_frame_unit_def)
qed

lemma eh_frame_loop_log_flag:
  "eh_frame_loop a d p (r\<lparr>log_flag := lf\<rparr>) =
     map_exec (\<lambda>(b, r). (b, r\<lparr>log_flag := lf\<rparr>)) (eh_frame_loop a d p r)"
proof (induction a d p r rule: eh_frame_loop.induct)
  case (1 a d p r)
  show ?case
  proof (cases "p < length d")
    case False
    then show ?thesis
      by (simp add: eh_frame_loop.simps [of a d p] )
  next
    case True
    show ?thesis
    proof (cases "eh_frame_unit a d p r")
      case (Return fl)
      show ?thesis
      proof (cases fl)
        case (Continue p1 r1)
        with "1.IH" [OF True Return Continue] True Return show ?thesis
          by (simp add: eh_frame_loop.simps [of a d p] eh_frame_unit_log_flag)
      next
        case (ReturnFalse r1)
        with True Return show ?thesis
          by (simp add: eh_frame_loop.simps [of a d p] eh_frame_unit_log_flag)
      qed
    next
      case Aborted
      with True show ?thesis
        by (simp add: eh_frame_loop.simps [of a d p] eh_frame_unit_log_flag)
    next
      case Undefined
      with True show ?thesis
        by (simp add: eh_frame_loop.simps [of a d p] eh_frame_unit_log_flag)
    qed
  qed
qed

lemma tables_agree_empty: "tables_agree Map.empty Map.empty"
  by (simp add: tables_agree_def)











lemma example_lengths:
  "length example_eh_frame = 40" "length example_unresolved = 40" "length example_eh = 40"
  "length example_zX = 40" "length example_v4 = 16"
  by (simp_all add: example_eh_frame_def example_unresolved_def example_eh_def example_zX_def example_v4_def)

lemma example_GetSection:
  "GetSection (example_reader s name lf) (cstring ''.eh_frame'') = Some example_sec"
  by (simp add: GetSection_def example_reader_def example_sec_def cstring_def)

lemma example_ReadSection:
  "length s = 40 \<Longrightarrow> ReadSection (example_reader s name lf) example_sec = Return s"
  by (simp add: ReadSection_def example_reader_def example_sec_def read_eh_frame
      vector_max_size_def)

lemma example_flags:
  "read_section_flag (example_reader s name lf) = 0"
  "log_flag (example_reader s name lf) = lf"
  "cie_table (example_reader s name lf) = Map.empty"
  "fde_table (example_reader s name lf) = Map.empty"
  "sh_addr example_sec = 0x2000"
  by (simp_all add: example_reader_def example_sec_def)

lemma flag_values:
  "(0 :: u32) AND READ_EH_FRAME_SECTION = 0" "(0 :: u32) AND LOG_EH_FRAME_SECTION = 0"
  "(- 1 :: u32) AND LOG_EH_FRAME_SECTION \<noteq> 0"
  "LOG_EH_FRAME_SECTION AND LOG_EH_FRAME_SECTION \<noteq> 0"
  "(0 :: u32) OR READ_EH_FRAME_SECTION = 1"
  by (simp_all add: READ_EH_FRAME_SECTION_def LOG_EH_FRAME_SECTION_def)

lemma example_log_unit_cie: "eh_frame_log_unit example_eh_frame 0 t = Return (Continue 20 (t(0 \<mapsto> example_cie\<lparr>insts := []\<rparr>)))"
proof -
  have "read_cie_fields example_eh_frame 8 new_Cie = Return (example_cie\<lparr>insts := []\<rparr>, 17)"
    by (simp add: read_cie_fields_def example_eh_frame_def example_cie_def eval_simps)
  then show ?thesis
    by (simp add: log_unit_cie [OF example_read_unit_cie] is_cie_id_zero)
qed

lemma example_log_unit_fde: "t 0 = Some (example_cie\<lparr>insts := []\<rparr>) \<Longrightarrow> eh_frame_log_unit example_eh_frame 20 t = Return (Continue 40 t)"
  by (simp add: log_unit_fde [OF example_read_unit_fde] is_cie_id_zero cie_offset_of_eq)
     (simp add: example_eh_frame_def example_cie_def eval_simps)

lemma example_log_loop: "eh_frame_log_loop example_eh_frame 0 Map.empty = Return (True, [0 \<mapsto> example_cie\<lparr>insts := []\<rparr>])"
  by (simp add: eh_frame_log_loop.simps example_lengths example_log_unit_cie example_log_unit_fde)

lemma example_loop: "eh_frame_loop 0x2000 example_eh_frame 0 r =
   Return (True, r\<lparr>cie_table := (cie_table r)(0 \<mapsto> example_cie), fde_table := (fde_table r)(0x1000 \<mapsto> example_fde)\<rparr>)"
  by (simp add: eh_frame_loop.simps example_lengths example_unit_cie example_unit_fde)

lemma example_ReadEhFrame:
  assumes "lf = 0 \<or> lf = - 1"
  shows "ReadEhFrame (example_reader example_eh_frame name lf) =
     Return (True, (example_reader example_eh_frame name lf)
       \<lparr>cie_table := [0 \<mapsto> example_cie], fde_table := [0x1000 \<mapsto> example_fde], read_section_flag := 1\<rparr>)"
  using assms
  by (auto simp add: ReadEhFrame_def decode_eh_frame_def example_GetSection example_ReadSection
      example_lengths example_flags READ_EH_FRAME_SECTION_def LOG_EH_FRAME_SECTION_def
      example_log_loop example_loop)

lemma unresolved_read_unit_cie: "read_unit example_unresolved 0 = Return (Unit False 4 20 0 8)"
  by (simp add: read_unit_def example_unresolved_def eval_simps)

lemma unresolved_read_unit_fde: "read_unit example_unresolved 20 = Return (Unit False 4 40 0x10 28)"
  by (simp add: read_unit_def example_unresolved_def eval_simps)

lemma unresolved_read_cie_fields: "read_cie_fields example_unresolved 8 new_Cie = Return (example_cie\<lparr>insts := []\<rparr>, 17)"
  by (simp add: read_cie_fields_def example_unresolved_def example_cie_def eval_simps)

lemma unresolved_unit_cie: "eh_frame_unit a example_unresolved 0 r =
    Return (Continue 20 (r\<lparr>cie_table := (cie_table r)(0 \<mapsto> example_cie)\<rparr>))"
  by (simp add: unit_cie [OF unresolved_read_unit_cie] is_cie_id_zero read_cie_fields_section64 unresolved_read_cie_fields)
     (simp add: example_unresolved_def example_cie_def)

lemma unresolved_log_unit_cie: "eh_frame_log_unit example_unresolved 0 t = Return (Continue 20 (t(0 \<mapsto> example_cie\<lparr>insts := []\<rparr>)))"
  by (simp add: log_unit_cie [OF unresolved_read_unit_cie] is_cie_id_zero unresolved_read_cie_fields)

lemma unresolved_turns: "eh_frame_turns 1 a example_unresolved 0 r =
    Some (20, r\<lparr>cie_table := (cie_table r)(0 \<mapsto> example_cie)\<rparr>)"
  by (simp add: example_lengths unresolved_unit_cie)

lemma unresolved_log_turns: "eh_frame_log_turns 1 example_unresolved 0 t = Some (20, t(0 \<mapsto> example_cie\<lparr>insts := []\<rparr>))"
  by (simp add: example_lengths unresolved_log_unit_cie)

subsection \<open>The examples, decoded\<close>

lemma unresolved_loop:
  assumes "cie_table r 8 = None"
  shows "eh_frame_loop a example_unresolved 0 r =
     Return (False, r\<lparr>cie_table := (cie_table r)(0 \<mapsto> example_cie)\<rparr>)"
proof -
  have "eh_frame_loop a example_unresolved 0 r =
      eh_frame_loop a example_unresolved 20 (r\<lparr>cie_table := (cie_table r)(0 \<mapsto> example_cie)\<rparr>)"
    by (rule eh_frame_turns_loop [of 1]) (rule unresolved_turns)
  also have "\<dots> = Return (False, r\<lparr>cie_table := (cie_table r)(0 \<mapsto> example_cie)\<rparr>)"
    using assms
    by (intro eh_frame_loop_unresolved [OF _ unresolved_read_unit_fde])
       (simp_all add: example_lengths is_cie_id_zero cie_offset_of_eq)
  finally show ?thesis .
qed

lemma unresolved_log_loop:
  "eh_frame_log_loop example_unresolved 0 Map.empty =
     Return (False, [0 \<mapsto> example_cie\<lparr>insts := []\<rparr>])"
proof -
  have "eh_frame_log_loop example_unresolved 0 Map.empty =
      eh_frame_log_loop example_unresolved 20 [0 \<mapsto> example_cie\<lparr>insts := []\<rparr>]"
    by (rule eh_frame_log_turns_loop [of 1]) (rule unresolved_log_turns)
  also have "\<dots> = Return (False, [0 \<mapsto> example_cie\<lparr>insts := []\<rparr>])"
    by (rule eh_frame_log_loop_unresolved [OF _ unresolved_read_unit_fde])
       (simp_all add: example_lengths is_cie_id_zero cie_offset_of_eq)
  finally show ?thesis .
qed

lemma unresolved_ReadEhFrame_plain:
  "ReadEhFrame (example_reader example_unresolved name 0) =
     Return (False, (example_reader example_unresolved name 0)\<lparr>cie_table := [0 \<mapsto> example_cie]\<rparr>)"
  by (simp add: ReadEhFrame_def decode_eh_frame_def example_GetSection example_ReadSection
      example_lengths example_flags READ_EH_FRAME_SECTION_def LOG_EH_FRAME_SECTION_def
      unresolved_loop)

lemma unresolved_ReadEhFrame_logged:
  "lf AND LOG_EH_FRAME_SECTION \<noteq> 0 \<Longrightarrow>
   ReadEhFrame (example_reader example_unresolved name lf) =
     Return (False, example_reader example_unresolved name lf)"
  by (simp add: ReadEhFrame_def decode_eh_frame_def example_GetSection example_ReadSection
      example_lengths example_flags READ_EH_FRAME_SECTION_def unresolved_log_loop)

lemma example_reader_log_flag:
  "(example_reader s name lf)\<lparr>log_flag := lf'\<rparr> = example_reader s name lf'"
  by (simp add: example_reader_def)

lemma malformed_read_units:
  "read_unit example_eh 0 = Return (Unit False 4 40 0 8)"
  "read_unit example_zX 0 = Return (Unit False 4 40 0 8)"
  by (simp_all add: read_unit_def example_eh_def example_zX_def eval_simps)

lemma malformed_ReadStr:
  "ReadStr example_eh 9 = Return ([0x65, 0x68], 12)"
  "ReadStr example_zX 9 = Return ([0x7a, 0x58], 12)"
  by (simp_all add: example_eh_def example_zX_def eval_simps)

lemma malformed_zX_fields: "read_cie_fields example_zX 8 new_Cie = Aborted"
  by (simp add: read_cie_fields_def example_zX_def eval_simps)

lemma v4_read_unit: "read_unit example_v4 0 = Return (Unit False 4 16 0 8)"
  by (simp add: read_unit_def example_v4_def eval_simps)

lemma v4_unit:
  "eh_frame_unit a example_v4 0 r =
     Return (Continue 16 (r\<lparr>cie_table := (cie_table r)(0 \<mapsto>
       \<lparr>section64 = False, insts = [0], address_size = 4, augmentation = [],
        data_alignment_factor = - 8, fde_pointer_encoding = 0, lsda_encoding = 0\<rparr>)\<rparr>))"
proof -
  have "read_cie_fields example_v4 8 (new_Cie\<lparr>section64 := False\<rparr>) =
      Return (\<lparr>section64 = False, insts = [], address_size = 4, augmentation = [],
        data_alignment_factor = - 8, fde_pointer_encoding = 0, lsda_encoding = 0\<rparr>, 15)"
    by (simp add: read_cie_fields_def example_v4_def eval_simps)
  then show ?thesis
    by (simp add: unit_cie [OF v4_read_unit] is_cie_id_zero) (simp add: example_v4_def)
qed

lemma example_encodings:
  "ReadEhEncoding example_eh_frame 28 0x1b = Return (0xffffffffffffefe4, 32)"
  "ReadEhEncoding example_eh_frame 32 0x1b = Return (0x20, 36)"
  by (simp_all add: example_eh_frame_def eval_simps)


lemma ReadEhFrame_logged:
  assumes "cie_table r = Map.empty"
    and "log_flag r AND LOG_EH_FRAME_SECTION = 0"
    and "lf AND LOG_EH_FRAME_SECTION \<noteq> 0"
  shows "(ReadEhFrame r = Return (True, r') \<longrightarrow>
            ReadEhFrame (r\<lparr>log_flag := lf\<rparr>) = Return (True, r'\<lparr>log_flag := lf\<rparr>)) \<and>
         (ReadEhFrame r = Return (False, r') \<longrightarrow>
            ReadEhFrame (r\<lparr>log_flag := lf\<rparr>) = Return (False, r\<lparr>log_flag := lf\<rparr>)) \<and>
         (ReadEhFrame r = Aborted \<longrightarrow> ReadEhFrame (r\<lparr>log_flag := lf\<rparr>) = Aborted)"
proof (cases "read_section_flag r AND READ_EH_FRAME_SECTION \<noteq> 0")
  case True
  then show ?thesis by (auto simp add: ReadEhFrame_def)
next
  case flag: False
  show ?thesis
  proof (cases "GetSection r (cstring ''.eh_frame'')")
    case None
    with flag show ?thesis
      by (auto simp add: ReadEhFrame_def decode_eh_frame_def GetSection_def)
  next
    case (Some sec)
    have same: "ReadSection (r\<lparr>log_flag := lf\<rparr>) sec = ReadSection r sec"
      by (simp add: ReadSection_def)
    have sec: "GetSection (r\<lparr>log_flag := lf\<rparr>) (cstring ''.eh_frame'') = Some sec"
      using Some by (simp add: GetSection_def)
    show ?thesis
    proof (cases "ReadSection r sec")
      case Aborted
      with flag Some sec same show ?thesis
        by (simp add: ReadEhFrame_def decode_eh_frame_def)
    next
      case Undefined
      with flag Some show ?thesis
        by (simp add: ReadEhFrame_def decode_eh_frame_def)
    next
      case (Return d)
    let ?d = d
    let ?a = "sh_addr sec"
    have agree: "tables_agree Map.empty (cie_table r)"
      using assms(1) by (simp add: tables_agree_empty)
    have plain: "ReadEhFrame r =
        exec_bind (eh_frame_loop ?a ?d 0 r) (\<lambda>(decoded, r).
          if \<not> decoded then Return (False, r)
          else Return (True, r\<lparr>read_section_flag := read_section_flag r OR READ_EH_FRAME_SECTION\<rparr>))"
      using flag Some Return assms(2) by (simp add: ReadEhFrame_def decode_eh_frame_def)
    have logged: "ReadEhFrame (r\<lparr>log_flag := lf\<rparr>) =
        exec_bind (eh_frame_log_loop ?d 0 Map.empty) (\<lambda>(logged, table).
          if \<not> logged then Return (False, r\<lparr>log_flag := lf\<rparr>)
          else exec_bind (eh_frame_loop ?a ?d 0 (r\<lparr>log_flag := lf\<rparr>)) (\<lambda>(decoded, r).
            if \<not> decoded then Return (False, r)
            else Return (True, r\<lparr>read_section_flag := read_section_flag r OR READ_EH_FRAME_SECTION\<rparr>)))"
      using flag assms(3) sec same Return
      by (simp add: ReadEhFrame_def decode_eh_frame_def Let_def)
    show ?thesis
    proof (cases "eh_frame_loop ?a ?d 0 r")
      case (Return x)
      obtain b r1 where x: "x = (b, r1)" by (cases x)
      from sim_loop [OF agree, of ?a ?d 0 b r1] Return x
      obtain t' where t': "eh_frame_log_loop ?d 0 Map.empty = Return (b, t')"
        by auto
      show ?thesis
        unfolding plain logged Return x t'
        by (cases b) (auto simp add: eh_frame_loop_log_flag Return x)
    next
      case Aborted
      with sim_loop [OF agree, of ?a ?d 0]
      have "eh_frame_log_loop ?d 0 Map.empty = Aborted" by auto
      then show ?thesis
        unfolding plain logged Aborted by simp
    next
      case Undefined
      then show ?thesis
        unfolding plain by simp
    qed
    qed
  qed
qed

subsection \<open>Reads that fail while a file is opened\<close>

lemma aug_loop_insts:
  "aug_loop d cs p c = Return (c', p') \<Longrightarrow> insts c' = insts c"
proof (induction cs arbitrary: p c)
  case Nil
  then show ?case by simp
next
  case (Cons ch cs)
  then show ?case
    by (auto simp add: exec_bind_Return split: if_splits)
qed











subsection \<open>The files on which a read fails\<close>












section \<open>The statements of the specification\<close>

text \<open>
  C1, as the code has it. A record of \<^verbatim>\<open>.eh_frame\<close> whose ID, after the promotion of the
  32-bit sentinel, is not zero is taken as an FDE: the turn of the loop creates no CIE, it
  fails when the offset it computes is not in the CIE table, and otherwise adds one FDE
  that refers to that offset. The offset is the position of the cursor behind the ID
  field, minus the width of the ID field (4 bytes, or 8 in the 64-bit form), minus the ID:
  the ID is counted back from the start of the ID field.
\<close>

theorem fde_cie_offset:
  assumes "read_unit d p = Return (Unit s sb ce i q)"
    and "i \<noteq> 0"
  shows "sb = (if s then 8 else 4) \<and>
         (cie_table r (of_nat q - of_nat sb - i) = None \<longrightarrow>
            eh_frame_unit a d p r = Return (ReturnFalse r)) \<and>
         (eh_frame_unit a d p r = Return (Continue p' r') \<longrightarrow>
            cie_table r' = cie_table r \<and>
            (\<exists>start fde. fde_table r' = (fde_table r)(start \<mapsto> fde) \<and>
               cie fde = of_nat q - of_nat sb - i \<and> cie_table r (cie fde) \<noteq> None))"
proof (intro conjI impI)
  show "sb = (if s then 8 else 4)"
    using assms(1) by (simp add: read_unit_secbytes)
next
  assume "cie_table r (of_nat q - of_nat sb - i) = None"
  with assms show "eh_frame_unit a d p r = Return (ReturnFalse r)"
    by (simp add: unit_fde is_cie_id_zero cie_offset_of_eq)
next
  assume "eh_frame_unit a d p r = Return (Continue p' r')"
  then have "cie_table r' = cie_table r \<and>
            (\<exists>start fde. fde_table r' = (fde_table r)(start \<mapsto> fde) \<and>
               cie fde = of_nat q - of_nat sb - i \<and> cie_table r (cie fde) \<noteq> None)"
  proof (cases rule: eh_frame_unit_Continue_cases)
    case zero
    with assms(1) show ?thesis by simp
  next
    case (cie s' sb' i' q' c q'')
    with assms show ?thesis by (simp add: is_cie_id_zero)
  next
    case (fde s' sb' i' q' c' loc range q'' q''')
    with assms(1) have eq: "q' = q" "s' = s" "sb' = sb" "i' = i" by simp_all
    let ?start = "if fde_pointer_encoding c' AND 0x70 = DW_EH_PE_pcrel
                  then loc + (a + of_nat q) else loc"
    let ?fde = "\<lparr>section64 = s, insts = take (p' - q''') (drop q''' d),
                cie = cie_offset_of q sb i, func_start = ?start, func_end = ?start + range\<rparr>"
    have "fde_table r' = (fde_table r)(?start \<mapsto> ?fde)" "cie_table r' = cie_table r"
      unfolding fde(7) eq by simp_all
    moreover have "cie ?fde = of_nat q - of_nat sb - i" "cie_table r (cie ?fde) \<noteq> None"
      using fde(3) unfolding eq by (simp_all add: cie_offset_of_eq)
    ultimately show ?thesis by blast
  qed
  then show "cie_table r' = cie_table r"
    and "\<exists>start fde. fde_table r' = (fde_table r)(start \<mapsto> fde) \<and>
               cie fde = of_nat q - of_nat sb - i \<and> cie_table r (cie fde) \<noteq> None"
    by simp_all
qed

text \<open>
  The FDE of \<^const>\<open>example_eh_frame\<close>, at offset 20 with the ID 24 in four bytes and the
  cursor at 28 behind it, after the turn for the CIE at offset 0.
\<close>

theorem fde_cie_offset_witness:
  "read_unit example_eh_frame 20 = Return (Unit False 4 40 24 28) \<and>
   (24 :: u64) \<noteq> 0 \<and>
   eh_frame_unit 0x2000 example_eh_frame 20
     ((example_reader example_eh_frame ''a.out'' 0)\<lparr>cie_table := [0 \<mapsto> example_cie]\<rparr>) =
   Return (Continue 40
     ((example_reader example_eh_frame ''a.out'' 0)
        \<lparr>cie_table := [0 \<mapsto> example_cie], fde_table := [0x1000 \<mapsto> example_fde]\<rparr>)) \<and>
   (\<exists>start fde.
      fde_table ((example_reader example_eh_frame ''a.out'' 0)
        \<lparr>cie_table := [0 \<mapsto> example_cie], fde_table := [0x1000 \<mapsto> example_fde]\<rparr>) =
      (fde_table ((example_reader example_eh_frame ''a.out'' 0)
        \<lparr>cie_table := [0 \<mapsto> example_cie]\<rparr>))(start \<mapsto> fde) \<and>
      cie fde = of_nat 28 - of_nat 4 - 24 \<and>
      cie_table ((example_reader example_eh_frame ''a.out'' 0)
        \<lparr>cie_table := [0 \<mapsto> example_cie]\<rparr>) (cie fde) \<noteq> None)"
proof -
  let ?r = "(example_reader example_eh_frame ''a.out'' 0)\<lparr>cie_table := [0 \<mapsto> example_cie]\<rparr>"
  let ?r' = "(example_reader example_eh_frame ''a.out'' 0)
        \<lparr>cie_table := [0 \<mapsto> example_cie], fde_table := [0x1000 \<mapsto> example_fde]\<rparr>"
  have unit: "read_unit example_eh_frame 20 = Return (Unit False 4 40 24 28)"
    by (rule example_read_unit_fde)
  have id: "(24 :: u64) \<noteq> 0"
    by simp
  have turn: "eh_frame_unit 0x2000 example_eh_frame 20 ?r = Return (Continue 40 ?r')"
    by (simp add: example_unit_fde example_flags)
  from fde_cie_offset [OF unit id, of ?r "0x2000" 40 ?r'] turn
  have "\<exists>start fde. fde_table ?r' = (fde_table ?r)(start \<mapsto> fde) \<and>
      cie fde = of_nat 28 - of_nat 4 - 24 \<and> cie_table ?r (cie fde) \<noteq> None"
    by blast
  with unit id turn show ?thesis
    by blast
qed

text \<open>
  C1, as the specification words it, fails on \<^const>\<open>example_eh_frame\<close>, decoded from the file of the
  example. For the FDE at offset 20 the position behind the ID field is 28 and the ID is
  24: their difference is 4, where no CIE is, and the FDE that the decoder builds refers to
  the CIE at offset 0.
\<close>

theorem fde_cie_offset_counterexample:
  "Create [''a.out'' \<mapsto> example_elf example_eh_frame] ''a.out'' 0 =
     Return (Some (example_reader example_eh_frame ''a.out'' 0)) \<and>
   ReadEhFrame (example_reader example_eh_frame ''a.out'' 0) =
     Return (True, (example_reader example_eh_frame ''a.out'' 0)
       \<lparr>cie_table := [0 \<mapsto> example_cie], fde_table := [0x1000 \<mapsto> example_fde],
        read_section_flag := 1\<rparr>) \<and>
   read_unit example_eh_frame 20 = Return (Unit False 4 40 24 28) \<and>
   cie example_fde = 0 \<and>
   (of_nat 28 - 24 :: u64) = 4 \<and>
   [0 \<mapsto> example_cie] (4 :: u64) = None"
  by (simp add: example_Create example_lengths example_ReadEhFrame example_read_unit_fde
      example_fde_def)

text \<open>
  C2, as the code has it. An FDE whose offset is not in the CIE table at that moment makes
  \<^verbatim>\<open>ReadEhFrame\<close> return \<^verbatim>\<open>false\<close>. With the log flag clear the reader is left as the turns
  before that record have made it, with every CIE and FDE decoded so far in its tables.
  With the log flag set the record is met by the loop that narrates, whose table is its
  own: \<^verbatim>\<open>ReadEhFrame\<close> returns \<^verbatim>\<open>false\<close> with the reader as it was before the call.
\<close>

theorem unresolved_cie_reference:
  assumes "read_section_flag r AND READ_EH_FRAME_SECTION = 0"
    and "GetSection r (cstring ''.eh_frame'') = Some sec"
    and "ReadSection r sec = Return d"
    and "p < length d"
    and "read_unit d p = Return (Unit s sb ce i q)"
    and "\<not> is_cie_id i"
  shows "(log_flag r AND LOG_EH_FRAME_SECTION = 0 \<longrightarrow>
            eh_frame_turns n (sh_addr sec) d 0 r = Some (p, rk) \<longrightarrow>
            cie_table rk (cie_offset_of q sb i) = None \<longrightarrow>
            ReadEhFrame r = Return (False, rk)) \<and>
         (log_flag r AND LOG_EH_FRAME_SECTION \<noteq> 0 \<longrightarrow>
            eh_frame_log_turns n d 0 Map.empty = Some (p, t) \<longrightarrow>
            t (cie_offset_of q sb i) = None \<longrightarrow>
            ReadEhFrame r = Return (False, r))"
proof (intro conjI impI)
  assume "log_flag r AND LOG_EH_FRAME_SECTION = 0"
    and "eh_frame_turns n (sh_addr sec) d 0 r = Some (p, rk)"
    and "cie_table rk (cie_offset_of q sb i) = None"
  moreover from this assms
  have "eh_frame_loop (sh_addr sec) d 0 r = Return (False, rk)"
    by (simp add: eh_frame_turns_loop eh_frame_loop_unresolved)
  ultimately show "ReadEhFrame r = Return (False, rk)"
    using assms(1,2,3) by (simp add: ReadEhFrame_def decode_eh_frame_def)
next
  assume "log_flag r AND LOG_EH_FRAME_SECTION \<noteq> 0"
    and "eh_frame_log_turns n d 0 Map.empty = Some (p, t)"
    and "t (cie_offset_of q sb i) = None"
  moreover from this assms
  have "eh_frame_log_loop d 0 Map.empty = Return (False, t)"
    by (simp add: eh_frame_log_turns_loop eh_frame_log_loop_unresolved)
  ultimately show "ReadEhFrame r = Return (False, r)"
    using assms(1,2,3) by (simp add: ReadEhFrame_def decode_eh_frame_def)
qed

text \<open>
  \<^const>\<open>example_unresolved\<close> with the log flag clear and with every log flag set: one turn
  decodes the CIE, the FDE at offset 20 refers to offset 8.
\<close>

theorem unresolved_cie_reference_witness:
  "read_unit example_unresolved 20 = Return (Unit False 4 40 16 28) \<and>
   cie_offset_of 28 4 16 = 8 \<and>
   eh_frame_turns 1 0x2000 example_unresolved 0 (example_reader example_unresolved ''b.out'' 0) =
     Some (20, (example_reader example_unresolved ''b.out'' 0)\<lparr>cie_table := [0 \<mapsto> example_cie]\<rparr>) \<and>
   ReadEhFrame (example_reader example_unresolved ''b.out'' 0) =
     Return (False, (example_reader example_unresolved ''b.out'' 0)\<lparr>cie_table := [0 \<mapsto> example_cie]\<rparr>) \<and>
   eh_frame_log_turns 1 example_unresolved 0 Map.empty =
     Some (20, [0 \<mapsto> example_cie\<lparr>insts := []\<rparr>]) \<and>
   ReadEhFrame (example_reader example_unresolved ''b.out'' (- 1)) =
     Return (False, example_reader example_unresolved ''b.out'' (- 1))"
  using unresolved_cie_reference [where r = "example_reader example_unresolved ''b.out'' 0"
      and sec = example_sec and d = example_unresolved and p = 20 and s = False and sb = 4
      and ce = 40 and i = 16 and q = 28 and n = 1
      and rk = "(example_reader example_unresolved ''b.out'' 0)\<lparr>cie_table := [0 \<mapsto> example_cie]\<rparr>"]
    unresolved_cie_reference [where r = "example_reader example_unresolved ''b.out'' (- 1)"
      and sec = example_sec and d = example_unresolved and p = 20 and s = False and sb = 4
      and ce = 40 and i = 16 and q = 28 and n = 1
      and t = "[0 \<mapsto> example_cie\<lparr>insts := []\<rparr>]"]
  by (simp add: example_GetSection example_ReadSection example_lengths example_flags
      READ_EH_FRAME_SECTION_def LOG_EH_FRAME_SECTION_def unresolved_read_unit_fde
      unresolved_unit_cie unresolved_log_unit_cie is_cie_id_zero cie_offset_of_eq)

text \<open>
  C2, as the specification words it, fails when the log flag is set, as it is in every reader of
  \<^verbatim>\<open>OpenElf\<close>: the CIE at offset 0 of \<^const>\<open>example_unresolved\<close> is decoded before the FDE
  that fails, and the tables of the reader are empty after the call.
\<close>

theorem unresolved_cie_reference_counterexample:
  "Create [''b.out'' \<mapsto> example_elf example_unresolved] ''b.out'' (- 1) =
     Return (Some (example_reader example_unresolved ''b.out'' (- 1))) \<and>
   eh_frame_log_turns 1 example_unresolved 0 Map.empty =
     Some (20, [0 \<mapsto> example_cie\<lparr>insts := []\<rparr>]) \<and>
   ReadEhFrame (example_reader example_unresolved ''b.out'' (- 1)) =
     Return (False, example_reader example_unresolved ''b.out'' (- 1)) \<and>
   cie_table (example_reader example_unresolved ''b.out'' (- 1)) = Map.empty \<and>
   fde_table (example_reader example_unresolved ''b.out'' (- 1)) = Map.empty"
  by (simp add: example_Create example_lengths unresolved_log_unit_cie
      unresolved_ReadEhFrame_logged LOG_EH_FRAME_SECTION_def example_flags)

text \<open>
  C3, as the code has it. On a reader whose CIE table is empty, as it is after \<^verbatim>\<open>Create\<close>,
  a decode that returns \<^verbatim>\<open>true\<close> with the log flag clear returns \<^verbatim>\<open>true\<close> with the log flag
  set and leaves the same tables; one that returns \<^verbatim>\<open>false\<close> returns \<^verbatim>\<open>false\<close> with the log
  flag set as well, but then with the tables as they were before the call; one that
  aborts, aborts. So the call with the log flag set has the result of the call with the
  log flag clear whenever the behaviour of the latter is defined. Where it is not (a read
  beyond the buffer, a record whose fields run past its end), nothing is said of the call
  with the log flag set.
\<close>

theorem log_flag_same_result:
  assumes "cie_table r = Map.empty"
    and "log_flag r AND LOG_EH_FRAME_SECTION = 0"
    and "lf AND LOG_EH_FRAME_SECTION \<noteq> 0"
  shows "(ReadEhFrame r = Return (True, r') \<longrightarrow>
            ReadEhFrame (r\<lparr>log_flag := lf\<rparr>) = Return (True, r'\<lparr>log_flag := lf\<rparr>)) \<and>
         (ReadEhFrame r = Return (False, r') \<longrightarrow>
            ReadEhFrame (r\<lparr>log_flag := lf\<rparr>) = Return (False, r\<lparr>log_flag := lf\<rparr>)) \<and>
         (ReadEhFrame r = Aborted \<longrightarrow> ReadEhFrame (r\<lparr>log_flag := lf\<rparr>) = Aborted) \<and>
         (ReadEhFrame r \<noteq> Undefined \<longrightarrow>
            map_exec fst (ReadEhFrame (r\<lparr>log_flag := lf\<rparr>)) = map_exec fst (ReadEhFrame r))"
proof -
  note logged = ReadEhFrame_logged [OF assms]
  have "ReadEhFrame r \<noteq> Undefined \<longrightarrow>
      map_exec fst (ReadEhFrame (r\<lparr>log_flag := lf\<rparr>)) = map_exec fst (ReadEhFrame r)"
  proof (cases "ReadEhFrame r")
    case (Return x)
    obtain b r1 where x: "x = (b, r1)" by (cases x)
    with Return logged [of r1] show ?thesis
      by (cases b) simp_all
  next
    case Aborted
    with logged show ?thesis by simp
  next
    case Undefined
    then show ?thesis by simp
  qed
  with logged [of r'] show ?thesis
    by blast
qed

text \<open>
  The reader of \<^const>\<open>example_eh_frame\<close> and the reader of \<^const>\<open>example_unresolved\<close>, with no
  log flag and with all of them.
\<close>

theorem log_flag_same_result_witness:
  "cie_table (example_reader example_eh_frame ''a.out'' 0) = Map.empty \<and>
   log_flag (example_reader example_eh_frame ''a.out'' 0) AND LOG_EH_FRAME_SECTION = 0 \<and>
   (- 1) AND LOG_EH_FRAME_SECTION \<noteq> 0 \<and>
   ReadEhFrame (example_reader example_eh_frame ''a.out'' 0) =
     Return (True, (example_reader example_eh_frame ''a.out'' 0)
       \<lparr>cie_table := [0 \<mapsto> example_cie], fde_table := [0x1000 \<mapsto> example_fde],
        read_section_flag := 1\<rparr>) \<and>
   ReadEhFrame (example_reader example_eh_frame ''a.out'' (- 1)) =
     Return (True, (example_reader example_eh_frame ''a.out'' (- 1))
       \<lparr>cie_table := [0 \<mapsto> example_cie], fde_table := [0x1000 \<mapsto> example_fde],
        read_section_flag := 1\<rparr>) \<and>
   ReadEhFrame (example_reader example_unresolved ''b.out'' 0) =
     Return (False, (example_reader example_unresolved ''b.out'' 0)\<lparr>cie_table := [0 \<mapsto> example_cie]\<rparr>) \<and>
   ReadEhFrame (example_reader example_unresolved ''b.out'' (- 1)) =
     Return (False, example_reader example_unresolved ''b.out'' (- 1)) \<and>
   map_exec fst (ReadEhFrame (example_reader example_unresolved ''b.out'' (- 1))) = Return False"
proof -
  let ?r = "example_reader example_eh_frame ''a.out'' 0"
  let ?r' = "?r\<lparr>cie_table := [0 \<mapsto> example_cie], fde_table := [0x1000 \<mapsto> example_fde],
        read_section_flag := 1\<rparr>"
  let ?u = "example_reader example_unresolved ''b.out'' 0"
  let ?u' = "?u\<lparr>cie_table := [0 \<mapsto> example_cie]\<rparr>"
  have empty: "cie_table ?r = Map.empty" "cie_table ?u = Map.empty"
    and clear: "log_flag ?r AND LOG_EH_FRAME_SECTION = 0"
      "log_flag ?u AND LOG_EH_FRAME_SECTION = 0"
    and set: "(- 1) AND LOG_EH_FRAME_SECTION \<noteq> 0"
    by (simp_all add: example_flags LOG_EH_FRAME_SECTION_def)
  have plain: "ReadEhFrame ?r = Return (True, ?r')"
    by (simp add: example_ReadEhFrame)
  have failed: "ReadEhFrame ?u = Return (False, ?u')"
    by (rule unresolved_ReadEhFrame_plain)
  from log_flag_same_result [OF empty(1) clear(1) set, of ?r'] plain
  have "ReadEhFrame (?r\<lparr>log_flag := - 1\<rparr>) = Return (True, ?r'\<lparr>log_flag := - 1\<rparr>)"
    by blast
  moreover have "?r\<lparr>log_flag := - 1\<rparr> = example_reader example_eh_frame ''a.out'' (- 1)"
    "?r'\<lparr>log_flag := - 1\<rparr> = (example_reader example_eh_frame ''a.out'' (- 1))
       \<lparr>cie_table := [0 \<mapsto> example_cie], fde_table := [0x1000 \<mapsto> example_fde],
        read_section_flag := 1\<rparr>"
    "?u\<lparr>log_flag := - 1\<rparr> = example_reader example_unresolved ''b.out'' (- 1)"
    by (simp_all add: example_reader_def)
  moreover from log_flag_same_result [OF empty(2) clear(2) set, of ?u'] failed
  have "ReadEhFrame (?u\<lparr>log_flag := - 1\<rparr>) = Return (False, ?u\<lparr>log_flag := - 1\<rparr>)"
    and "map_exec fst (ReadEhFrame (?u\<lparr>log_flag := - 1\<rparr>)) = Return False"
    by simp_all
  ultimately show ?thesis
    using empty clear set plain failed by simp
qed

text \<open>
  C3, as the specification words it, fails on \<^const>\<open>example_unresolved\<close>: both calls return \<^verbatim>\<open>false\<close>,
  and the CIE table holds the CIE at offset 0 after the call with the log flag clear and
  nothing after the call with the log flag set.
\<close>

theorem log_flag_same_result_counterexample:
  "ReadEhFrame (example_reader example_unresolved ''b.out'' 0) =
     Return (False, (example_reader example_unresolved ''b.out'' 0)\<lparr>cie_table := [0 \<mapsto> example_cie]\<rparr>) \<and>
   ReadEhFrame (example_reader example_unresolved ''b.out'' LOG_EH_FRAME_SECTION) =
     Return (False, example_reader example_unresolved ''b.out'' LOG_EH_FRAME_SECTION) \<and>
   cie_table ((example_reader example_unresolved ''b.out'' 0)\<lparr>cie_table := [0 \<mapsto> example_cie]\<rparr>) 0 =
     Some example_cie \<and>
   cie_table (example_reader example_unresolved ''b.out'' LOG_EH_FRAME_SECTION) 0 = None"
  by (simp add: unresolved_ReadEhFrame_plain unresolved_ReadEhFrame_logged example_flags
      LOG_EH_FRAME_SECTION_def)

text \<open>
  C4. A CIE whose augmentation string starts with a character that is neither the
  terminator nor \<^verbatim>\<open>z\<close> ends the process through \<^verbatim>\<open>abort()\<close>, and so does a CIE of the \<^verbatim>\<open>z\<close>
  form with a character other than \<^verbatim>\<open>R\<close>, \<^verbatim>\<open>P\<close> and \<^verbatim>\<open>L\<close> behind the \<^verbatim>\<open>z\<close>, when the reads
  before that character stay inside the buffer: \<^verbatim>\<open>ReadEhFrame\<close> does not return. The CIE
  is the one at which the first loop of the call stands after a number of turns: the loop
  that narrates when the log flag is set, the loop of the reader otherwise.
\<close>

theorem malformed_augmentation_aborts:
  assumes "read_section_flag r AND READ_EH_FRAME_SECTION = 0"
    and "GetSection r (cstring ''.eh_frame'') = Some sec"
    and "ReadSection r sec = Return d"
    and "p < length d"
    and "read_unit d p = Return (Unit s sb ce i q)"
    and "is_cie_id i"
    and "ReadStr d (q + 1) = Return (aug, q')"
    and "if log_flag r AND LOG_EH_FRAME_SECTION \<noteq> 0
         then \<exists>n t. eh_frame_log_turns n d 0 Map.empty = Some (p, t)
         else \<exists>n rk. eh_frame_turns n (sh_addr sec) d 0 r = Some (p, rk)"
    and "(first_char aug \<noteq> 0 \<and> first_char aug \<noteq> char_byte CHR ''z'') \<or>
         (first_char aug = char_byte CHR ''z'' \<and>
          (\<exists>ch \<in> set (drop 1 aug).
             ch \<notin> {char_byte CHR ''R'', char_byte CHR ''P'', char_byte CHR ''L''}) \<and>
          read_cie_fields d q new_Cie \<noteq> Undefined)"
  shows "ReadEhFrame r = Aborted"
proof -
  have plain: "read_cie_fields d q new_Cie = Aborted"
    using assms(9)
  proof (elim disjE conjE)
    assume "first_char aug \<noteq> 0" "first_char aug \<noteq> char_byte CHR ''z''"
    with assms(7) show ?thesis by (rule read_cie_fields_first_char)
  next
    assume "first_char aug = char_byte CHR ''z''"
      and "\<exists>ch \<in> set (drop 1 aug).
             ch \<notin> {char_byte CHR ''R'', char_byte CHR ''P'', char_byte CHR ''L''}"
      and "read_cie_fields d q new_Cie \<noteq> Undefined"
    with read_cie_fields_unexpected [OF assms(7), of new_Cie] show ?thesis
      by (cases "read_cie_fields d q new_Cie") auto
  qed
  then have sec64: "read_cie_fields d q (new_Cie\<lparr>section64 := s\<rparr>) = Aborted"
    by (simp add: read_cie_fields_section64)
  have log: "eh_frame_log_loop d p t = Aborted" for t
    using assms(4,5,6) plain by (simp add: eh_frame_log_loop_abort log_unit_cie)
  have main: "eh_frame_loop a d p rk = Aborted" for a rk
    using assms(4,5,6) sec64 by (simp add: eh_frame_loop_abort unit_cie)
  show ?thesis
  proof (cases "log_flag r AND LOG_EH_FRAME_SECTION \<noteq> 0")
    case True
    with assms(8) obtain n t where "eh_frame_log_turns n d 0 Map.empty = Some (p, t)"
      by auto
    then have "eh_frame_log_loop d 0 Map.empty = Aborted"
      by (simp add: eh_frame_log_turns_loop log)
    with True assms(1,2,3) show ?thesis
      by (simp add: ReadEhFrame_def decode_eh_frame_def)
  next
    case False
    with assms(8) obtain n rk where "eh_frame_turns n (sh_addr sec) d 0 r = Some (p, rk)"
      by auto
    then have "eh_frame_loop (sh_addr sec) d 0 r = Aborted"
      by (simp add: eh_frame_turns_loop main)
    with False assms(1,2,3) show ?thesis
      by (simp add: ReadEhFrame_def decode_eh_frame_def)
  qed
qed

text \<open>
  The augmentation \<^verbatim>\<open>eh\<close> with the log flag clear, and the augmentation \<^verbatim>\<open>zX\<close> with every
  log flag set.
\<close>

theorem malformed_augmentation_aborts_witness:
  "ReadStr example_eh 9 = Return ([0x65, 0x68], 12) \<and>
   ReadEhFrame (example_reader example_eh ''c.out'' 0) = Aborted \<and>
   ReadStr example_zX 9 = Return ([0x7a, 0x58], 12) \<and>
   read_cie_fields example_zX 8 new_Cie \<noteq> Undefined \<and>
   ReadEhFrame (example_reader example_zX ''d.out'' (- 1)) = Aborted"
proof -
  have turns: "\<exists>n rk. eh_frame_turns n 0x2000 example_eh 0 (example_reader example_eh ''c.out'' 0) =
      Some (0, rk)"
    by (rule exI [of _ 0]) simp
  have log_turns: "\<exists>n t. eh_frame_log_turns n example_zX 0 Map.empty = Some (0, t)"
    by (rule exI [of _ 0]) simp
  have "ReadEhFrame (example_reader example_eh ''c.out'' 0) = Aborted"
    using turns
    by (intro malformed_augmentation_aborts [of _ example_sec example_eh 0 False 4 40 0 8
          "[0x65, 0x68]" 12])
       (simp_all add: example_GetSection example_ReadSection example_lengths example_flags
          READ_EH_FRAME_SECTION_def LOG_EH_FRAME_SECTION_def malformed_read_units
          malformed_ReadStr is_cie_id_zero first_char_def char_byte_def)
  moreover have "ReadEhFrame (example_reader example_zX ''d.out'' (- 1)) = Aborted"
    using log_turns
    by (intro malformed_augmentation_aborts [of _ example_sec example_zX 0 False 4 40 0 8
          "[0x7a, 0x58]" 12])
       (simp_all add: example_GetSection example_ReadSection example_lengths example_flags
          READ_EH_FRAME_SECTION_def LOG_EH_FRAME_SECTION_def malformed_read_units
          malformed_ReadStr malformed_zX_fields is_cie_id_zero first_char_def char_byte_def)
  ultimately show ?thesis
    by (simp add: malformed_ReadStr malformed_zX_fields)
qed

text \<open>
  C5. Once \<^verbatim>\<open>ReadEhFrame\<close> has returned \<^verbatim>\<open>true\<close>, a further call returns \<^verbatim>\<open>true\<close> with the
  reader untouched, whatever the file and the section headers hold by then: it reads and
  parses nothing. A call that returns \<^verbatim>\<open>false\<close> leaves the flag of a successful decode
  clear, and the next call goes through the whole decode again.
\<close>

theorem ReadEhFrame_idempotent:
  "(ReadEhFrame r = Return (True, r') \<longrightarrow>
      ReadEhFrame (r'\<lparr>fp := f, sec_headers := secs\<rparr>) =
        Return (True, r'\<lparr>fp := f, sec_headers := secs\<rparr>)) \<and>
   (ReadEhFrame r = Return (False, r') \<longrightarrow>
      read_section_flag r' AND READ_EH_FRAME_SECTION = 0 \<and>
      ReadEhFrame r' = decode_eh_frame r')"
proof (intro conjI impI)
  assume "ReadEhFrame r = Return (True, r')"
  then have "read_section_flag r' AND READ_EH_FRAME_SECTION \<noteq> 0"
    by (auto simp add: ReadEhFrame_def split: if_splits dest: decode_eh_frame_True)
  then show "ReadEhFrame (r'\<lparr>fp := f, sec_headers := secs\<rparr>) =
         Return (True, r'\<lparr>fp := f, sec_headers := secs\<rparr>)"
    by (simp add: ReadEhFrame_def)
next
  assume a: "ReadEhFrame r = Return (False, r')"
  then have clear: "read_section_flag r AND READ_EH_FRAME_SECTION = 0"
    and "decode_eh_frame r = Return (False, r')"
    by (auto simp add: ReadEhFrame_def split: if_splits)
  then have "read_section_flag r' = read_section_flag r"
    by (auto dest!: decode_eh_frame_False tables_only_fields(1))
  with clear show "read_section_flag r' AND READ_EH_FRAME_SECTION = 0" by simp
  then show "ReadEhFrame r' = decode_eh_frame r'"
    by (simp add: ReadEhFrame_def)
qed

text \<open>
  A second call on the reader of \<^const>\<open>example_eh_frame\<close> after its file has been emptied
  and its section headers dropped, and a second call on the reader of
  \<^const>\<open>example_unresolved\<close>.
\<close>

theorem ReadEhFrame_idempotent_witness:
  "ReadEhFrame (example_reader example_eh_frame ''a.out'' 0) =
     Return (True, (example_reader example_eh_frame ''a.out'' 0)
       \<lparr>cie_table := [0 \<mapsto> example_cie], fde_table := [0x1000 \<mapsto> example_fde],
        read_section_flag := 1\<rparr>) \<and>
   ReadEhFrame ((example_reader example_eh_frame ''a.out'' 0)
       \<lparr>cie_table := [0 \<mapsto> example_cie], fde_table := [0x1000 \<mapsto> example_fde],
        read_section_flag := 1, fp := [], sec_headers := Map.empty\<rparr>) =
     Return (True, (example_reader example_eh_frame ''a.out'' 0)
       \<lparr>cie_table := [0 \<mapsto> example_cie], fde_table := [0x1000 \<mapsto> example_fde],
        read_section_flag := 1, fp := [], sec_headers := Map.empty\<rparr>) \<and>
   ReadEhFrame (example_reader example_unresolved ''b.out'' 0) =
     Return (False, (example_reader example_unresolved ''b.out'' 0)\<lparr>cie_table := [0 \<mapsto> example_cie]\<rparr>) \<and>
   ReadEhFrame ((example_reader example_unresolved ''b.out'' 0)\<lparr>cie_table := [0 \<mapsto> example_cie]\<rparr>) =
     decode_eh_frame ((example_reader example_unresolved ''b.out'' 0)\<lparr>cie_table := [0 \<mapsto> example_cie]\<rparr>)"
  using ReadEhFrame_idempotent [where r = "example_reader example_eh_frame ''a.out'' 0"
      and r' = "(example_reader example_eh_frame ''a.out'' 0)
       \<lparr>cie_table := [0 \<mapsto> example_cie], fde_table := [0x1000 \<mapsto> example_fde],
        read_section_flag := 1\<rparr>" and f = "[]" and secs = Map.empty]
    ReadEhFrame_idempotent [where r = "example_reader example_unresolved ''b.out'' 0"
      and r' = "(example_reader example_unresolved ''b.out'' 0)\<lparr>cie_table := [0 \<mapsto> example_cie]\<rparr>"]
  by (simp add: example_ReadEhFrame [of 0] unresolved_ReadEhFrame_plain)

text \<open>
  C6. \<^verbatim>\<open>ReadMinVirtualAddress\<close> returns the smallest virtual address among the program
  headers of type LOAD with the executable flag set, and the sentinel \<^verbatim>\<open>ULLONG_MAX\<close> when
  no program header has both.
\<close>

theorem ReadMinVirtualAddress_smallest:
  "ReadMinVirtualAddress phs =
     (if filter exec_load phs = [] then ULLONG_MAX
      else Min (set (map p_vaddr (filter exec_load phs))))"
proof (cases "filter exec_load phs = []")
  case True
  then have "\<forall>ph \<in> set phs. \<not> exec_load ph"
    by (simp add: filter_empty_conv)
  with True show ?thesis
    by (simp add: ReadMinVirtualAddress_def min_vaddr_loop_none)
next
  case False
  let ?S = "set (map p_vaddr (filter exec_load phs))"
  have fin: "finite ?S" by simp
  have ne: "?S \<noteq> {}" using False by (auto simp add: filter_empty_conv)
  have "ReadMinVirtualAddress phs = Min (insert ULLONG_MAX ?S)"
    by (simp add: ReadMinVirtualAddress_def min_vaddr_loop_fold fold_min_Min)
  also have "\<dots> = min ULLONG_MAX (Min ?S)"
    using fin ne by (rule Min_insert)
  also have "\<dots> = Min ?S"
    by (simp add: min_def ULLONG_MAX_top antisym)
  finally show ?thesis using False by simp
qed

theorem ReadMinVirtualAddress_smallest_witness:
  "ReadMinVirtualAddress
     [\<lparr>p_type = 1, p_flags = 5, p_offset = 0, p_vaddr = 0x2000, p_paddr = 0, p_filesz = 0\<rparr>,
      \<lparr>p_type = 1, p_flags = 6, p_offset = 0, p_vaddr = 0x500, p_paddr = 0, p_filesz = 0\<rparr>,
      \<lparr>p_type = 1, p_flags = 1, p_offset = 0, p_vaddr = 0x1000, p_paddr = 0, p_filesz = 0\<rparr>]
   = 0x1000
   \<and> ReadMinVirtualAddress
     [\<lparr>p_type = 1, p_flags = 6, p_offset = 0, p_vaddr = 0x500, p_paddr = 0, p_filesz = 0\<rparr>]
   = ULLONG_MAX"
  using ReadMinVirtualAddress_smallest
    [of "[\<lparr>p_type = 1, p_flags = 5, p_offset = 0, p_vaddr = 0x2000, p_paddr = 0, p_filesz = 0\<rparr>,
      \<lparr>p_type = 1, p_flags = 6, p_offset = 0, p_vaddr = 0x500, p_paddr = 0, p_filesz = 0\<rparr>,
      \<lparr>p_type = 1, p_flags = 1, p_offset = 0, p_vaddr = 0x1000, p_paddr = 0, p_filesz = 0\<rparr>]"]
    ReadMinVirtualAddress_smallest
    [of "[\<lparr>p_type = 1, p_flags = 6, p_offset = 0, p_vaddr = 0x500, p_paddr = 0, p_filesz = 0\<rparr>]"]
  by (simp add: exec_load_def PT_LOAD_def PF_X_def)

text \<open>
  C7. The turn of the loop of the reader for an FDE: when the two values of the range are
  read with the pointer encoding of the CIE, the augmentation data (a length when the
  augmentation of the CIE starts with \<^verbatim>\<open>z\<close>, a pointer when the CIE has an LSDA encoding) is
  read and the cursor is then not behind the end of the record, the turn goes on behind
  the record with one FDE added to the table. Its start address is the value read for
  the initial location, to which, when the base of the pointer encoding is relative to
  the program counter, the virtual address of the section and the offset of the
  initial-location field within the section are added; its end address is the start
  address plus the value read for the address range; it sits in the table under its start
  address. And a turn that goes on at all has stored an FDE with these two addresses.
\<close>

theorem fde_function_range:
  assumes "read_unit d p = Return (Unit s sb ce i q)"
    and "\<not> is_cie_id i"
    and "cie_table r (cie_offset_of q sb i) = Some c"
    and "ReadEhEncoding d q (fde_pointer_encoding c) = Return (initial_location, q1)"
    and "ReadEhEncoding d q1 (fde_pointer_encoding c) = Return (address_range, q2)"
  shows "let proc_start = (if fde_pointer_encoding c AND 0x70 = DW_EH_PE_pcrel
                           then initial_location + eh_frame_addr + of_nat q
                           else initial_location)
         in ((if first_char (augmentation c) = char_byte CHR ''z''
              then \<exists>len. ReadULEB128 d q2 = Return (len, q3) else q3 = q2) \<longrightarrow>
             (if lsda_encoding c \<noteq> 0
              then \<exists>lsda. ReadEhEncoding d q3 (lsda_encoding c) = Return (lsda, q4)
              else q4 = q3) \<longrightarrow>
             q4 \<le> ce \<longrightarrow>
             eh_frame_unit eh_frame_addr d p r =
               Return (Continue ce (r\<lparr>fde_table := (fde_table r)(proc_start \<mapsto>
                 \<lparr>section64 = s, insts = take (ce - q4) (drop q4 d),
                  cie = cie_offset_of q sb i, func_start = proc_start,
                  func_end = proc_start + address_range\<rparr>)\<rparr>))) \<and>
            (eh_frame_unit eh_frame_addr d p r = Return (Continue p' r') \<longrightarrow>
               map_option func_start (fde_table r' proc_start) = Some proc_start \<and>
               map_option func_end (fde_table r' proc_start) = Some (proc_start + address_range))"
proof -
  have range: "read_fde_range d q c = Return (initial_location, address_range, q2)"
    using assms(4,5) by (simp add: read_fde_range_def)
  have turn: "eh_frame_unit eh_frame_addr d p r =
      exec_bind (read_fde_augmentation d q2 c) (\<lambda>p''.
        if ce < p'' then Undefined
        else Return (Continue ce
          (r\<lparr>fde_table := (fde_table r)
             ((if fde_pointer_encoding c AND 0x70 = DW_EH_PE_pcrel
               then initial_location + (eh_frame_addr + of_nat q) else initial_location) \<mapsto>
              \<lparr>section64 = s, insts = take (ce - p'') (drop p'' d),
               cie = cie_offset_of q sb i,
               func_start = (if fde_pointer_encoding c AND 0x70 = DW_EH_PE_pcrel
                  then initial_location + (eh_frame_addr + of_nat q) else initial_location),
               func_end = (if fde_pointer_encoding c AND 0x70 = DW_EH_PE_pcrel
                  then initial_location + (eh_frame_addr + of_nat q) else initial_location) +
                 address_range\<rparr>)\<rparr>)))"
    by (simp add: unit_fde [OF assms(1,2)] assms(3) range)
  have goes: "eh_frame_unit eh_frame_addr d p r =
      Return (Continue ce (r\<lparr>fde_table := (fde_table r)
        ((if fde_pointer_encoding c AND 0x70 = DW_EH_PE_pcrel
          then initial_location + eh_frame_addr + of_nat q else initial_location) \<mapsto>
         \<lparr>section64 = s, insts = take (ce - q4) (drop q4 d),
          cie = cie_offset_of q sb i,
          func_start = (if fde_pointer_encoding c AND 0x70 = DW_EH_PE_pcrel
             then initial_location + eh_frame_addr + of_nat q else initial_location),
          func_end = (if fde_pointer_encoding c AND 0x70 = DW_EH_PE_pcrel
             then initial_location + eh_frame_addr + of_nat q else initial_location) +
            address_range\<rparr>)\<rparr>))"
    if z: "if first_char (augmentation c) = char_byte CHR ''z''
           then \<exists>len. ReadULEB128 d q2 = Return (len, q3) else q3 = q2"
      and l: "if lsda_encoding c \<noteq> 0
              then \<exists>lsda. ReadEhEncoding d q3 (lsda_encoding c) = Return (lsda, q4)
              else q4 = q3"
      and bound: "q4 \<le> ce"
  proof -
    have "read_fde_augmentation d q2 c = Return q4"
      using z l by (auto simp add: read_fde_augmentation_def split: if_splits)
    with bound show ?thesis
      unfolding turn by (simp add: add.assoc)
  qed
  have stored: "map_option func_start (fde_table r'
        (if fde_pointer_encoding c AND 0x70 = DW_EH_PE_pcrel
         then initial_location + eh_frame_addr + of_nat q else initial_location)) =
      Some (if fde_pointer_encoding c AND 0x70 = DW_EH_PE_pcrel
         then initial_location + eh_frame_addr + of_nat q else initial_location) \<and>
    map_option func_end (fde_table r'
        (if fde_pointer_encoding c AND 0x70 = DW_EH_PE_pcrel
         then initial_location + eh_frame_addr + of_nat q else initial_location)) =
      Some ((if fde_pointer_encoding c AND 0x70 = DW_EH_PE_pcrel
         then initial_location + eh_frame_addr + of_nat q else initial_location) + address_range)"
    if "eh_frame_unit eh_frame_addr d p r = Return (Continue p' r')"
    using that unfolding turn
    by (auto simp add: exec_bind_Return add.assoc split: if_splits)
  from goes stored show ?thesis
    unfolding Let_def by blast
qed

text \<open>
  The FDE of \<^const>\<open>example_eh_frame\<close> in the turn of the loop that decodes it: the initial
  location is \<open>-0x101c\<close>, read at offset 28 of the section, which is mapped at \<open>0x2000\<close>,
  and the range is \<open>0x20\<close>. The FDE that the turn stores covers \<open>0x1000\<close> to \<open>0x1020\<close>.
\<close>

theorem fde_function_range_witness:
  "read_unit example_eh_frame 20 = Return (Unit False 4 40 24 28) \<and>
   \<not> is_cie_id 24 \<and>
   cie_table ((example_reader example_eh_frame ''a.out'' 0)\<lparr>cie_table := [0 \<mapsto> example_cie]\<rparr>)
     (cie_offset_of 28 4 24) = Some example_cie \<and>
   fde_pointer_encoding example_cie AND 0x70 = DW_EH_PE_pcrel \<and>
   ReadEhEncoding example_eh_frame 28 (fde_pointer_encoding example_cie) =
     Return (0xffffffffffffefe4, 32) \<and>
   ReadEhEncoding example_eh_frame 32 (fde_pointer_encoding example_cie) = Return (0x20, 36) \<and>
   first_char (augmentation example_cie) = char_byte CHR ''z'' \<and>
   ReadULEB128 example_eh_frame 36 = Return (0, 37) \<and>
   lsda_encoding example_cie = 0 \<and>
   eh_frame_unit 0x2000 example_eh_frame 20
     ((example_reader example_eh_frame ''a.out'' 0)\<lparr>cie_table := [0 \<mapsto> example_cie]\<rparr>) =
   Return (Continue 40
     ((example_reader example_eh_frame ''a.out'' 0)
        \<lparr>cie_table := [0 \<mapsto> example_cie],
         fde_table := [0x1000 \<mapsto>
           \<lparr>section64 = False, insts = [0, 0, 0], cie = 0,
            func_start = 0x1000, func_end = 0x1020\<rparr>]\<rparr>))"
proof -
  let ?r = "(example_reader example_eh_frame ''a.out'' 0)\<lparr>cie_table := [0 \<mapsto> example_cie]\<rparr>"
  have unit: "read_unit example_eh_frame 20 = Return (Unit False 4 40 24 28)"
    by (rule example_read_unit_fde)
  have fde: "\<not> is_cie_id 24"
    by (simp add: is_cie_id_zero)
  have found: "cie_table ?r (cie_offset_of 28 4 24) = Some example_cie"
    by (simp add: cie_offset_of_eq)
  have enc: "fde_pointer_encoding example_cie = 0x1b"
    and z: "first_char (augmentation example_cie) = char_byte CHR ''z''"
    and no_lsda: "lsda_encoding example_cie = 0"
    by (simp_all add: example_cie_def first_char_def char_byte_def)
  have pcrel: "fde_pointer_encoding example_cie AND 0x70 = DW_EH_PE_pcrel"
    by (simp add: enc DW_EH_PE_pcrel_def)
  have loc: "ReadEhEncoding example_eh_frame 28 (fde_pointer_encoding example_cie) =
      Return (0xffffffffffffefe4, 32)"
    and range: "ReadEhEncoding example_eh_frame 32 (fde_pointer_encoding example_cie) =
      Return (0x20, 36)"
    by (simp_all add: enc example_encodings)
  have len: "ReadULEB128 example_eh_frame 36 = Return (0, 37)"
    by (simp add: example_eh_frame_def eval_simps)
  have rest: "take 3 (drop 37 example_eh_frame) = [0, 0, 0]"
    by (simp add: example_eh_frame_def)
  have wrap: "(18446744073709555712 :: u64) = 0x1000" "(18446744073709555744 :: u64) = 0x1020"
    by simp_all
  from fde_function_range [OF unit fde found loc range, where ?q3.0 = 37 and ?q4.0 = 37
      and eh_frame_addr = "0x2000"]
  have "eh_frame_unit 0x2000 example_eh_frame 20 ?r =
      Return (Continue 40 (?r\<lparr>fde_table := (fde_table ?r)(0x1000 \<mapsto>
        \<lparr>section64 = False, insts = [0, 0, 0], cie = 0,
         func_start = 0x1000, func_end = 0x1020\<rparr>)\<rparr>))"
    by (simp add: Let_def pcrel z no_lsda len rest cie_offset_of_eq wrap)
  then have "eh_frame_unit 0x2000 example_eh_frame 20 ?r =
      Return (Continue 40
        ((example_reader example_eh_frame ''a.out'' 0)
           \<lparr>cie_table := [0 \<mapsto> example_cie],
            fde_table := [0x1000 \<mapsto>
              \<lparr>section64 = False, insts = [0, 0, 0], cie = 0,
               func_start = 0x1000, func_end = 0x1020\<rparr>]\<rparr>))"
    by (simp add: example_flags)
  with unit fde found pcrel loc range z len no_lsda show ?thesis
    by blast
qed



text \<open>
  C9. A call of \<^verbatim>\<open>OpenElf\<close> that returns leaves an entry for the name in the table, which is
  its result, and no other entry changed. When the table had no entry for the name, the
  result is what \<^verbatim>\<open>Create\<close> returned, the null pointer of a failed open included; when it
  had one, the result is that entry and the table is as it was. Every later call for the
  name returns the same entry and leaves the table alone, whatever the file system holds
  by then: it opens nothing.
\<close>

theorem OpenElf_once:
  assumes "OpenElf fs reader_table name = Return (result, reader_table')"
  shows "reader_table' name = Some result \<and>
         (other \<noteq> name \<longrightarrow> reader_table' other = reader_table other) \<and>
         (reader_table name = None \<longrightarrow> Create fs name (- 1) = Return result) \<and>
         (reader_table name = Some it \<longrightarrow> result = it \<and> reader_table' = reader_table) \<and>
         OpenElf fs' reader_table' name = Return (result, reader_table')"
  using assms
  by (auto simp add: OpenElf_def exec_bind_Return split: option.splits)

text \<open>
  The file of the example, opened and asked for again when the file is gone; and a name
  that cannot be opened, asked for again when the file of the example is there.
\<close>

theorem OpenElf_once_witness:
  "OpenElf [''a.out'' \<mapsto> example_elf example_eh_frame] Map.empty ''a.out'' =
     Return (Some (example_reader example_eh_frame ''a.out'' (- 1)),
             [''a.out'' \<mapsto> Some (example_reader example_eh_frame ''a.out'' (- 1))]) \<and>
   OpenElf Map.empty [''a.out'' \<mapsto> Some (example_reader example_eh_frame ''a.out'' (- 1))] ''a.out'' =
     Return (Some (example_reader example_eh_frame ''a.out'' (- 1)),
             [''a.out'' \<mapsto> Some (example_reader example_eh_frame ''a.out'' (- 1))]) \<and>
   OpenElf Map.empty Map.empty ''a.out'' = Return (None, [''a.out'' \<mapsto> None]) \<and>
   OpenElf [''a.out'' \<mapsto> example_elf example_eh_frame] [''a.out'' \<mapsto> None] ''a.out'' =
     Return (None, [''a.out'' \<mapsto> None])"
proof -
  let ?fs = "[''a.out'' \<mapsto> example_elf example_eh_frame]"
  let ?r = "example_reader example_eh_frame ''a.out'' (- 1)"
  have first: "OpenElf ?fs Map.empty ''a.out'' = Return (Some ?r, [''a.out'' \<mapsto> Some ?r])"
    by (simp add: OpenElf_def example_Create example_lengths)
  have missing: "OpenElf Map.empty Map.empty ''a.out'' = Return (None, [''a.out'' \<mapsto> None])"
    by (simp add: OpenElf_def Create_def)
  from OpenElf_once [OF first, of _ _ Map.empty]
  have "OpenElf Map.empty [''a.out'' \<mapsto> Some ?r] ''a.out'' = Return (Some ?r, [''a.out'' \<mapsto> Some ?r])"
    by blast
  moreover from OpenElf_once [OF missing, of _ _ ?fs]
  have "OpenElf ?fs [''a.out'' \<mapsto> None] ''a.out'' = Return (None, [''a.out'' \<mapsto> None])"
    by blast
  ultimately show ?thesis
    using first missing by blast
qed

text \<open>
  C10. The turn of the loop of the reader for a CIE: when the augmentation string is
  empty or starts with \<^verbatim>\<open>z\<close>, the fields of the CIE are read inside the buffer and the
  cursor is then not behind the end of the record, the turn goes on behind the record
  with the CIE stored under the offset of the record, and the address size of that CIE
  is 8 when the version is less than 4 and the byte behind the augmentation string when
  the version is 4 or more. The class of the file has no part in it: the loop does not
  look at it. And a turn that goes on at all has stored a CIE with that address size.
\<close>

theorem cie_address_size:
  assumes "read_unit d p = Return (Unit s sb ce i q)"
    and "is_cie_id i"
    and "Read d q 1 = Return (version, q1)"
    and "ReadStr d q1 = Return (aug, q2)"
  shows "let stored = (if (ucast version :: byte) < 4 then 8 else ucast asz);
             fields = new_Cie\<lparr>section64 := s, augmentation := aug, address_size := stored,
                        data_alignment_factor := daf\<rparr>
         in (first_char aug = 0 \<or> first_char aug = char_byte CHR ''z'' \<longrightarrow>
             (if 4 \<le> (ucast version :: byte)
              then \<exists>seg. Read d q2 1 = Return (asz, qa) \<and> Read d qa 1 = Return (seg, q3)
              else q3 = q2) \<longrightarrow>
             ReadULEB128 d q3 = Return (caf, q4) \<longrightarrow>
             ReadLEB128 d q4 = Return (daf, q5) \<longrightarrow>
             (if (ucast version :: byte) = 1 then Read d q5 1 else ReadULEB128 d q5) =
               Return (rar, q6) \<longrightarrow>
             (if first_char aug = char_byte CHR ''z''
              then \<exists>alen q7. ReadULEB128 d q6 = Return (alen, q7) \<and>
                     aug_loop d (drop 1 aug) q7 fields = Return (c, q8)
              else c = fields \<and> q8 = q6) \<longrightarrow>
             q8 \<le> ce \<longrightarrow>
             eh_frame_unit a d p r =
               Return (Continue ce (r\<lparr>cie_table := (cie_table r)(of_nat p \<mapsto>
                 c\<lparr>insts := take (ce - q8) (drop q8 d)\<rparr>)\<rparr>)) \<and>
             address_size c = stored) \<and>
            (eh_frame_unit a d p r = Return (Continue p' r') \<longrightarrow>
               ((ucast version :: byte) < 4 \<longrightarrow>
                  map_option address_size (cie_table r' (of_nat p)) = Some 8) \<and>
               (4 \<le> (ucast version :: byte) \<longrightarrow> Read d q2 1 = Return (asz, qa) \<longrightarrow>
                  map_option address_size (cie_table r' (of_nat p)) = Some (ucast asz)))"
proof -
  let ?size = "if (ucast version :: byte) < 4 then 8 else ucast asz :: byte"
  let ?fields = "new_Cie\<lparr>section64 := s, augmentation := aug, address_size := ?size,
                        data_alignment_factor := daf\<rparr>"
  have goes: "eh_frame_unit a d p r =
      Return (Continue ce (r\<lparr>cie_table := (cie_table r)(of_nat p \<mapsto>
        c\<lparr>insts := take (ce - q8) (drop q8 d)\<rparr>)\<rparr>)) \<and>
      address_size c = ?size"
    if fc: "first_char aug = 0 \<or> first_char aug = char_byte CHR ''z''"
      and v4: "if 4 \<le> (ucast version :: byte)
          then \<exists>seg. Read d q2 1 = Return (asz, qa) \<and> Read d qa 1 = Return (seg, q3)
          else q3 = q2"
      and caf: "ReadULEB128 d q3 = Return (caf, q4)"
      and daf: "ReadLEB128 d q4 = Return (daf, q5)"
      and rar: "(if (ucast version :: byte) = 1 then Read d q5 1 else ReadULEB128 d q5) =
          Return (rar, q6)"
      and z: "if first_char aug = char_byte CHR ''z''
          then \<exists>alen q7. ReadULEB128 d q6 = Return (alen, q7) \<and>
                 aug_loop d (drop 1 aug) q7 ?fields = Return (c, q8)
          else c = ?fields \<and> q8 = q6"
      and bound: "q8 \<le> ce"
  proof -
    have sized: "(if 4 \<le> (ucast version :: byte)
          then exec_bind (Read d q2 1) (\<lambda>(address_size, p).
               exec_bind (Read d p 1) (\<lambda>(segment_size, p).
                 Return (ucast address_size :: byte, p)))
          else Return (8, q2)) = Return (?size, q3)"
      using v4 by (auto simp add: not_le)
    have tail: "(if first_char aug = char_byte CHR ''z''
          then exec_bind (ReadULEB128 d q6) (\<lambda>(augmentation_len, p).
                 aug_loop d (drop 1 aug) p ?fields)
          else Return (?fields, q6)) = Return (c, q8)"
      using z by auto
    have fields: "read_cie_fields d q (new_Cie\<lparr>section64 := s\<rparr>) = Return (c, q8)"
      unfolding read_cie_fields_def
      using fc by (simp add: assms(3,4) Let_def sized caf daf rar tail del: One_nat_def)
    have "insts c = []" "address_size c = ?size"
      using z by (auto simp add: new_Cie_def split: if_splits
          dest: aug_loop_insts aug_loop_address_size)
    with fields bound show ?thesis
      by (simp add: unit_cie [OF assms(1,2)])
  qed
  have stored: "((ucast version :: byte) < 4 \<longrightarrow>
        map_option address_size (cie_table r' (of_nat p)) = Some 8) \<and>
      (4 \<le> (ucast version :: byte) \<longrightarrow> Read d q2 1 = Return (asz, qa) \<longrightarrow>
        map_option address_size (cie_table r' (of_nat p)) = Some (ucast asz))"
    if "eh_frame_unit a d p r = Return (Continue p' r')"
    using that
  proof (cases rule: eh_frame_unit_Continue_cases)
    case zero
    with assms(1) show ?thesis by simp
  next
    case (cie s' sb' i' q' c q'')
    with assms(1) have eq: "q' = q" "s' = s" by simp_all
    from cie(3) assms(3,4)
      read_cie_fields_address_size [of d q "new_Cie\<lparr>section64 := s\<rparr>" c q'' version q1]
    show ?thesis
      unfolding cie(5) eq by auto
  next
    case (fde s' sb' i' q' c loc range q'' q''')
    with assms(1,2) show ?thesis by simp
  qed
  from goes stored show ?thesis
    unfolding Let_def by blast
qed

text \<open>
  The CIE of version 1 of \<^const>\<open>example_eh_frame\<close>, whose augmentation is \<^verbatim>\<open>zR\<close>, in the reader
  of a 64-bit file, and the CIE of version 4 of \<^const>\<open>example_v4\<close>, whose augmentation is
  empty and whose address-size byte is 4: the reads of their fields and the turns of the
  loop that store them.
\<close>

theorem cie_address_size_witness:
  "read_unit example_eh_frame 0 = Return (Unit False 4 20 0 8) \<and>
   Read example_eh_frame 8 1 = Return (1, 9) \<and>
   ReadStr example_eh_frame 9 = Return ([0x7a, 0x52], 12) \<and>
   ReadULEB128 example_eh_frame 12 = Return (1, 13) \<and>
   ReadLEB128 example_eh_frame 13 = Return (- 8, 14) \<and>
   Read example_eh_frame 14 1 = Return (0x10, 15) \<and>
   ReadULEB128 example_eh_frame 15 = Return (1, 16) \<and>
   eh_frame_unit 0x2000 example_eh_frame 0 (example_reader example_eh_frame ''a.out'' 0) =
     Return (Continue 20 ((example_reader example_eh_frame ''a.out'' 0)
       \<lparr>cie_table := [0 \<mapsto>
          \<lparr>section64 = False, insts = [0x0c, 7, 8], address_size = 8,
           augmentation = [0x7a, 0x52], data_alignment_factor = - 8,
           fde_pointer_encoding = 0x1b, lsda_encoding = 0\<rparr>]\<rparr>)) \<and>
   read_unit example_v4 0 = Return (Unit False 4 16 0 8) \<and>
   Read example_v4 8 1 = Return (4, 9) \<and>
   ReadStr example_v4 9 = Return ([], 10) \<and>
   Read example_v4 10 1 = Return (4, 11) \<and>
   Read example_v4 11 1 = Return (0, 12) \<and>
   ReadULEB128 example_v4 12 = Return (1, 13) \<and>
   ReadLEB128 example_v4 13 = Return (- 8, 14) \<and>
   ReadULEB128 example_v4 14 = Return (0x10, 15) \<and>
   eh_frame_unit 0x2000 example_v4 0 (example_reader example_v4 ''v.out'' 0) =
     Return (Continue 16 ((example_reader example_v4 ''v.out'' 0)
       \<lparr>cie_table := [0 \<mapsto>
          \<lparr>section64 = False, insts = [0], address_size = 4, augmentation = [],
           data_alignment_factor = - 8, fde_pointer_encoding = 0, lsda_encoding = 0\<rparr>]\<rparr>))"
proof -
  let ?r = "example_reader example_eh_frame ''a.out'' 0"
  let ?v = "example_reader example_v4 ''v.out'' 0"
  have cie: "is_cie_id 0"
    by (simp add: is_cie_id_zero)
  have reads1: "Read example_eh_frame 8 1 = Return (1, 9)"
    "ReadStr example_eh_frame 9 = Return ([0x7a, 0x52], 12)"
    "ReadULEB128 example_eh_frame 12 = Return (1, 13)"
    "ReadLEB128 example_eh_frame 13 = Return (- 8, 14)"
    "Read example_eh_frame 14 1 = Return (0x10, 15)"
    "ReadULEB128 example_eh_frame 15 = Return (1, 16)"
    by (simp_all add: example_eh_frame_def eval_simps)
  from cie_address_size [OF example_read_unit_cie cie reads1(1,2), where asz = 0 and ?q3.0 = 12
      and caf = 1 and ?q4.0 = 13 and daf = "- 8" and ?q5.0 = 14 and rar = "0x10" and ?q6.0 = 15
      and ?q8.0 = 17 and a = "0x2000" and r = ?r
      and c = "\<lparr>section64 = False, insts = [], address_size = 8,
           augmentation = [0x7a, 0x52], data_alignment_factor = - 8,
           fde_pointer_encoding = 0x1b, lsda_encoding = 0\<rparr>"]
  have turn1: "eh_frame_unit 0x2000 example_eh_frame 0 ?r =
     Return (Continue 20 (?r
       \<lparr>cie_table := [0 \<mapsto>
          \<lparr>section64 = False, insts = [0x0c, 7, 8], address_size = 8,
           augmentation = [0x7a, 0x52], data_alignment_factor = - 8,
           fde_pointer_encoding = 0x1b, lsda_encoding = 0\<rparr>]\<rparr>))"
    by (simp add: Let_def example_eh_frame_def eval_simps example_flags)
  have reads4: "Read example_v4 8 1 = Return (4, 9)"
    "ReadStr example_v4 9 = Return ([], 10)"
    "Read example_v4 10 1 = Return (4, 11)"
    "Read example_v4 11 1 = Return (0, 12)"
    "ReadULEB128 example_v4 12 = Return (1, 13)"
    "ReadLEB128 example_v4 13 = Return (- 8, 14)"
    "ReadULEB128 example_v4 14 = Return (0x10, 15)"
    by (simp_all add: example_v4_def eval_simps)
  from cie_address_size [OF v4_read_unit cie reads4(1,2), where asz = 4 and qa = 11 and ?q3.0 = 12
      and caf = 1 and ?q4.0 = 13 and daf = "- 8" and ?q5.0 = 14 and rar = "0x10" and ?q6.0 = 15
      and ?q8.0 = 15 and a = "0x2000" and r = ?v
      and c = "\<lparr>section64 = False, insts = [], address_size = 4, augmentation = [],
           data_alignment_factor = - 8, fde_pointer_encoding = 0, lsda_encoding = 0\<rparr>"]
  have turn4: "eh_frame_unit 0x2000 example_v4 0 ?v =
     Return (Continue 16 (?v
       \<lparr>cie_table := [0 \<mapsto>
          \<lparr>section64 = False, insts = [0], address_size = 4, augmentation = [],
           data_alignment_factor = - 8, fde_pointer_encoding = 0, lsda_encoding = 0\<rparr>]\<rparr>))"
    by (simp add: Let_def example_v4_def eval_simps example_flags)
  from example_read_unit_cie reads1 turn1 v4_read_unit reads4 turn4 show ?thesis
    by blast
qed

end
